theory Spec2Isabelle
  imports Main "HOL-Library.Multiset"
begin

section \<open>JavaScript values used by the components\<close>

text \<open>
  Strings are lists of characters, a character standing for a code unit below 256.
  On that range \<open>toLowerCase\<close> moves \<open>A\<close>-\<open>Z\<close> and the accented capitals (192-222
  without the multiplication sign 215) down by 32, and the white space that \<open>trim\<close>
  removes is tab, line feed, vertical tab, form feed, carriage return, space and the
  no-break space.
\<close>

definition lower_char :: "char \<Rightarrow> char" where
  "lower_char c =
     (let n = (of_char c :: nat)
      in if (65 \<le> n \<and> n \<le> 90) \<or> (192 \<le> n \<and> n \<le> 222 \<and> n \<noteq> 215) then char_of (n + 32) else c)"

definition toLowerCase :: "string \<Rightarrow> string" where
  "toLowerCase s = map lower_char s"

definition is_whitespace :: "char \<Rightarrow> bool" where
  "is_whitespace c = ((of_char c :: nat) \<in> {9, 10, 11, 12, 13, 32, 160})"

definition trim :: "string \<Rightarrow> string" where
  "trim s = rev (dropWhile is_whitespace (rev (dropWhile is_whitespace s)))"

fun starts_with :: "string \<Rightarrow> string \<Rightarrow> bool" where
  "starts_with s [] = True"
| "starts_with [] (d # ds) = False"
| "starts_with (c # cs) (d # ds) = (c = d \<and> starts_with cs ds)"

text \<open>\<open>includes_str s sub\<close> is \<open>s.includes(sub)\<close>: \<open>sub\<close> occurs in \<open>s\<close> as a contiguous run.\<close>

fun includes_str :: "string \<Rightarrow> string \<Rightarrow> bool" where
  "includes_str [] sub = (sub = [])"
| "includes_str (c # cs) sub = (starts_with (c # cs) sub \<or> includes_str cs sub)"

definition digit_char :: "nat \<Rightarrow> char" where
  "digit_char d = char_of (48 + d)"

text \<open>The decimal text of a number, as a template literal prints \<open>Date.now()\<close>.\<close>

fun show_nat :: "nat \<Rightarrow> string" where
  "show_nat n = (if n < 10 then [digit_char n] else show_nat (n div 10) @ [digit_char (n mod 10)])"

declare show_nat.simps [simp del]

text \<open>
  A thrown value, with the properties the handlers read: \<open>err.code\<close>,
  \<open>err.message\<close>, \<open>err.error.message\<close>, \<open>err.receipt\<close> (its \<open>status\<close> and
  \<open>transactionHash\<close>) and \<open>err.transaction.hash\<close>. \<open>None\<close> is \<open>undefined\<close>.
\<close>

record err_receipt =
  status :: "int option"
  transactionHash :: "string option"

record js_error =
  code :: "int option"
  message :: "string option"
  nested_message :: "string option"
  receipt :: "err_receipt option"
  transaction_hash :: "string option"

text \<open>\<open>new Error(m)\<close>: only the message is set.\<close>

definition new_Error :: "string \<Rightarrow> js_error" where
  "new_Error m = \<lparr>code = None, message = Some m, nested_message = None,
                  receipt = None, transaction_hash = None\<rparr>"

text \<open>A string property is truthy when it is defined and not empty.\<close>

fun truthy :: "string option \<Rightarrow> bool" where
  "truthy None = False"
| "truthy (Some s) = (s \<noteq> [])"

text \<open>\<open>err.message || ''\<close>\<close>

fun or_empty :: "string option \<Rightarrow> string" where
  "or_empty None = []"
| "or_empty (Some s) = s"

text \<open>\<open>err.message && err.message.includes(pat)\<close>\<close>

definition message_includes :: "js_error \<Rightarrow> string \<Rightarrow> bool" where
  "message_includes err pat = (truthy (message err) \<and> includes_str (or_empty (message err)) pat)"

datatype provider = Web3Provider

section \<open>NoteEditor: \<open>handleSubmit\<close>\<close>

record editor_props =
  contractAddress :: string
  provider :: "provider option"
  account :: string
  noteId :: "nat option"
  has_onSaved :: bool
  readOnly :: bool

record editor_state =
  title :: string
  content :: string
  saving :: bool
  error :: string
  success :: string
  isNewNote :: bool

text \<open>An entry of \<open>receipt.events\<close>: \<open>event.event\<close>, \<open>event.topics?.[0]\<close> and
  \<open>event.args?.noteId\<close> (a BigNumber; \<open>None\<close> when \<open>args\<close> or the key is undefined).\<close>

record log_event =
  event :: "string option"
  topic0 :: "string option"
  args_noteId :: "nat option"

record tx_receipt =
  events :: "log_event list option"

text \<open>The transaction response: its hash and what the two \<open>tx.wait()\<close> calls give.\<close>

record tx_response =
  hash :: string
  wait_first :: "js_error + tx_receipt"
  wait_second :: "js_error + tx_receipt"

record signer =
  isSigner :: bool

text \<open>What the wallet and the network answer during one submission.\<close>

record submit_env =
  getSigner :: "js_error + signer"
  isAddress :: "string \<Rightarrow> bool"
  send :: "js_error + tx_response"

text \<open>
  The observable steps of a submission, in program order: state setters, the
  calls made on the provider and the contract, and the \<open>onSaved\<close> callback (which
  the source runs from a two-second timer, after the handler has finished).
\<close>

datatype editor_action =
    SetError string
  | SetSuccess string
  | SetSaving bool
  | GetSigner
  | CreateNote string string
  | UpdateNote "nat option" string string
  | WaitTx
  | OnSaved "nat option"

text \<open>\<open>BigNumber.toNumber()\<close> throws when the value needs more than 53 bits, that is
  from \<open>2^53 = 9007199254740992\<close> on.\<close>

definition toNumber :: "nat \<Rightarrow> js_error + nat" where
  "toNumber n = (if n < 9007199254740992 then Inr n else Inl (new_Error ''overflow''))"

definition is_NoteCreated :: "log_event \<Rightarrow> bool" where
  "is_NoteCreated ev =
     (event ev = Some ''NoteCreated'' \<or>
      (case topic0 ev of None \<Rightarrow> False | Some t \<Rightarrow> includes_str t ''NoteCreated''))"

text \<open>The id taken from the receipt; every miss and the caught \<open>toNumber\<close> failure
  leave it \<open>null\<close>.\<close>

definition extract_note_id :: "tx_receipt \<Rightarrow> nat option" where
  "extract_note_id r =
     (case events r of
        None \<Rightarrow> None
      | Some evs \<Rightarrow>
          (case find is_NoteCreated evs of
             None \<Rightarrow> None
           | Some ev \<Rightarrow>
               (case args_noteId ev of
                  None \<Rightarrow> None
                | Some bn \<Rightarrow> (case toNumber bn of Inl e \<Rightarrow> None | Inr n \<Rightarrow> Some n))))"

text \<open>
  The editor builds its contract from \<open>SecureNotesABI\<close>, whose \<open>NoteCreated\<close> event
  declares the inputs \<open>owner\<close>, \<open>note_id\<close> and \<open>title\<close>. The contract wrapper decodes a
  log of a declared event into its name and its arguments keyed by the declared input
  names, so \<open>args?.noteId\<close> is the argument declared under the name \<open>noteId\<close>, if there
  is one. (Only a BigNumber there yields an id: on a value of another kind
  \<open>toNumber\<close> is not a function, and the throw is caught.)
\<close>

definition NoteCreated_inputs :: "string list" where
  "NoteCreated_inputs = [''owner'', ''note_id'', ''title'']"

datatype abi_value = Address string | Uint nat | Text string

definition decoded_event :: "string \<Rightarrow> string list \<Rightarrow> string \<Rightarrow> abi_value list \<Rightarrow> log_event" where
  "decoded_event name inputs topic values =
     \<lparr>event = Some name, topic0 = Some topic,
      args_noteId = (case map_of (zip inputs values) ''noteId'' of
                       Some (Uint n) \<Rightarrow> Some n
                     | other \<Rightarrow> None)\<rparr>"

text \<open>The body of the inner \<open>try\<close>: dispatch, first wait, success message, id
  extraction. It gives the steps taken and either the thrown value or the id
  handed to the timer.\<close>

definition dispatch_and_confirm ::
  "editor_props \<Rightarrow> editor_state \<Rightarrow> submit_env \<Rightarrow> editor_action list \<times> (js_error + nat option)" where
  "dispatch_and_confirm props st env =
     (let call = (if isNewNote st then CreateNote (title st) (content st)
                  else UpdateNote (noteId props) (title st) (content st))
      in case send env of
           Inl e \<Rightarrow> ([call], Inl e)
         | Inr tx \<Rightarrow>
             (case wait_first tx of
                Inl e \<Rightarrow> ([call, WaitTx], Inl e)
              | Inr r1 \<Rightarrow>
                  (let ok = SetSuccess (if isNewNote st then ''Note created successfully!''
                                        else ''Note updated successfully!'')
                   in if isNewNote st \<and> hash tx \<noteq> []
                      then ([call, WaitTx, ok, WaitTx],
                            Inr (case wait_second tx of
                                   Inl e \<Rightarrow> None
                                 | Inr r2 \<Rightarrow> extract_note_id r2))
                      else ([call, WaitTx, ok],
                            Inr (if isNewNote st then None else noteId props)))))"

text \<open>The inner \<open>catch\<close>: what it throws on to the outer handler.\<close>

definition inner_catch :: "js_error \<Rightarrow> js_error" where
  "inner_catch innerErr =
     (if truthy (nested_message innerErr) then new_Error (or_empty (nested_message innerErr))
      else if message_includes innerErr ''user rejected''
        then new_Error ''Transaction was rejected in your wallet.''
      else if message_includes innerErr ''note does not exist''
        then new_Error ''Note does not exist or you don't have permission to edit it.''
      else if message_includes innerErr ''registered''
        then new_Error ''Your wallet isn't correctly registered with the contract.''
      else innerErr)"

text \<open>The outer \<open>try\<close> up to its \<open>catch\<close>.\<close>

definition save_attempt ::
  "editor_props \<Rightarrow> editor_state \<Rightarrow> submit_env \<Rightarrow> editor_action list \<times> (js_error + nat option)" where
  "save_attempt props st env =
     (case getSigner env of
        Inl e \<Rightarrow> ([GetSigner], Inl e)
      | Inr sg \<Rightarrow>
          if \<not> isAddress env (contractAddress props)
            then ([GetSigner],
                  Inl (new_Error ''Contract address is invalid. Please check your configuration.''))
          else if \<not> isSigner sg
            then ([GetSigner],
                  Inl (new_Error ''No valid signer available. Please reconnect your wallet.''))
          else (case dispatch_and_confirm props st env of
                  (acts, Inl innerErr) \<Rightarrow> (GetSigner # acts, Inl (inner_catch innerErr))
                | (acts, Inr saved) \<Rightarrow> (GetSigner # acts, Inr saved)))"

text \<open>The outer \<open>catch\<close>: receipt status and hash read from the thrown value.\<close>

definition receiptStatus :: "js_error \<Rightarrow> int option" where
  "receiptStatus err = (case receipt err of None \<Rightarrow> None | Some r \<Rightarrow> status r)"

definition caught_transactionHash :: "js_error \<Rightarrow> string option" where
  "caught_transactionHash err =
     (case receipt err of
        Some r \<Rightarrow> transactionHash r
      | None \<Rightarrow> (if truthy (transaction_hash err) then transaction_hash err else None))"

definition zero_status_text :: "js_error \<Rightarrow> string" where
  "zero_status_text err =
     ''Transaction was sent to the blockchain but failed during execution. This is likely due to a problem with the encryption contract setup. ''
     @ ''Check encryption contract address in src/contracts/addresses.js file.''
     @ (if truthy (caught_transactionHash err)
        then [CHR 0x0A, CHR 0x0A] @ ''Transaction Hash: '' @ or_empty (caught_transactionHash err)
        else [])"

text \<open>The part of the message that the branch taken decides.\<close>

definition failure_text :: "js_error \<Rightarrow> string" where
  "failure_text err =
     (if receiptStatus err = Some 0 then zero_status_text err
      else if message_includes err ''execution reverted''
        then ''Transaction was rejected by the smart contract. There may be an issue with the encryption contract.''
      else if message_includes err ''UNPREDICTABLE_GAS_LIMIT''
        then ''Gas estimation failed. The contract or function may not exist at the specified address.''
      else if message_includes err ''insufficient funds''
        then ''Your wallet doesn't have enough ETH to pay for this transaction.''
      else if message_includes err ''contract not responding''
        then ''The encryption contract is not responding. Contract addresses may be incorrect.''
      else if message_includes err ''contract address is invalid''
        then ''One of the contract addresses is in an invalid format. Please check configuration.''
      else if truthy (message err) then or_empty (message err)
      else ''Unknown error occurred. Check browser console for details.'')"

definition suggestions :: string where
  "suggestions =
     [CHR 0x0A, CHR 0x0A] @ ''To fix this issue:''
     @ [CHR 0x0A] @ ''1. Check contract addresses in src/contracts/addresses.js''
     @ [CHR 0x0A] @ ''2. Make sure both Solidity and Rust contracts are properly deployed''
     @ [CHR 0x0A] @ ''3. Verify that your wallet has enough ETH for transaction fees''"

definition errorMessage :: "js_error \<Rightarrow> string" where
  "errorMessage err = ''Failed to save note. '' @ failure_text err @ suggestions"

text \<open>
  The message patterns of the outer handler, as a function of the message text alone.
\<close>

definition pattern_text :: "string \<Rightarrow> string" where
  "pattern_text m =
     (if includes_str m ''execution reverted''
        then ''Transaction was rejected by the smart contract. There may be an issue with the encryption contract.''
      else if includes_str m ''UNPREDICTABLE_GAS_LIMIT''
        then ''Gas estimation failed. The contract or function may not exist at the specified address.''
      else if includes_str m ''insufficient funds''
        then ''Your wallet doesn't have enough ETH to pay for this transaction.''
      else if includes_str m ''contract not responding''
        then ''The encryption contract is not responding. Contract addresses may be incorrect.''
      else if includes_str m ''contract address is invalid''
        then ''One of the contract addresses is in an invalid format. Please check configuration.''
      else m)"

text \<open>
  The order of precedence that the two handlers together are shown to follow, for a
  value thrown by dispatch or confirmation: a nested provider message first
  (classified by the patterns alone), then user rejection, then the two patterns of
  the inner handler, then a zero receipt status, then the patterns of the outer
  handler or the message itself, then unknown.
\<close>

definition precedence_text :: "js_error \<Rightarrow> string" where
  "precedence_text e =
     (if truthy (nested_message e) then pattern_text (or_empty (nested_message e))
      else if message_includes e ''user rejected''
        then ''Transaction was rejected in your wallet.''
      else if message_includes e ''note does not exist''
        then ''Note does not exist or you don't have permission to edit it.''
      else if message_includes e ''registered''
        then ''Your wallet isn't correctly registered with the contract.''
      else if receiptStatus e = Some 0 then zero_status_text e
      else if truthy (message e) then pattern_text (or_empty (message e))
      else ''Unknown error occurred. Check browser console for details.'')"

definition handleSubmit :: "editor_props \<Rightarrow> editor_state \<Rightarrow> submit_env \<Rightarrow> editor_action list" where
  "handleSubmit props st env =
     (if readOnly props then []
      else if trim (title st) = [] then [SetError ''Please enter a title for your note'']
      else if provider props = None \<or> account props = [] \<or> contractAddress props = []
        then [SetError ''Please connect your wallet first'']
      else [SetSaving True, SetError [], SetSuccess []] @
           (case save_attempt props st env of
              (acts, Inl err) \<Rightarrow> acts @ [SetError (errorMessage err), SetSaving False]
            | (acts, Inr saved) \<Rightarrow>
                acts @ [SetSaving False] @ (if has_onSaved props then [OnSaved saved] else [])))"

text \<open>The effect of a step on the editor's own state.\<close>

fun editor_apply :: "editor_state \<Rightarrow> editor_action \<Rightarrow> editor_state" where
  "editor_apply st (SetError m) = st\<lparr>error := m\<rparr>"
| "editor_apply st (SetSuccess m) = st\<lparr>success := m\<rparr>"
| "editor_apply st (SetSaving b) = st\<lparr>saving := b\<rparr>"
| "editor_apply st a = st"

definition editor_run :: "editor_state \<Rightarrow> editor_action list \<Rightarrow> editor_state" where
  "editor_run st acts = foldl editor_apply st acts"

text \<open>The steps that send a transaction to the contract.\<close>

fun is_dispatch :: "editor_action \<Rightarrow> bool" where
  "is_dispatch (CreateNote t c) = True"
| "is_dispatch (UpdateNote i t c) = True"
| "is_dispatch a = False"

text \<open>The steps that report a failure: an error message that is not empty.\<close>

fun is_error_report :: "editor_action \<Rightarrow> bool" where
  "is_error_report (SetError m) = (m \<noteq> [])"
| "is_error_report a = False"

section \<open>App: the record view state\<close>

text \<open>
  \<open>noteState\<close> of the App component. Its \<open>editorKey\<close> and \<open>refreshTrigger\<close> fields only
  force a remount or a refetch and are left out; \<open>selectedNoteId\<close> and \<open>isEditing\<close>
  decide what is shown.
\<close>

record note_state =
  selectedNoteId :: "nat option"
  isEditing :: bool

record app_state =
  app_account :: string
  app_provider :: "provider option"
  noteState :: note_state

definition handleConnect :: "string \<Rightarrow> provider option \<Rightarrow> app_state \<Rightarrow> app_state" where
  "handleConnect walletAddress ethersProvider a =
     \<lparr>app_account = walletAddress, app_provider = ethersProvider,
      noteState = \<lparr>selectedNoteId = None, isEditing = False\<rparr>\<rparr>"

definition handleSelectNote :: "nat \<Rightarrow> note_state \<Rightarrow> note_state" where
  "handleSelectNote i prev = \<lparr>selectedNoteId = Some i, isEditing = False\<rparr>"

definition handleCreateNote :: "note_state \<Rightarrow> note_state" where
  "handleCreateNote prev = \<lparr>selectedNoteId = None, isEditing = True\<rparr>"

definition handleEditNote :: "note_state \<Rightarrow> note_state" where
  "handleEditNote prev = (if selectedNoteId prev \<noteq> None then prev\<lparr>isEditing := True\<rparr> else prev)"

text \<open>\<open>noteId || prev.selectedNoteId\<close>: \<open>null\<close> and the number \<open>0\<close> are both falsy.\<close>

fun or_selected :: "nat option \<Rightarrow> nat option \<Rightarrow> nat option" where
  "or_selected None prev = prev"
| "or_selected (Some n) prev = (if n = 0 then prev else Some n)"

definition handleNoteSaved :: "nat option \<Rightarrow> note_state \<Rightarrow> note_state" where
  "handleNoteSaved savedId prev =
     prev\<lparr>selectedNoteId := or_selected savedId (selectedNoteId prev), isEditing := False\<rparr>"

definition handleCancelEdit :: "note_state \<Rightarrow> note_state" where
  "handleCancelEdit prev = prev\<lparr>isEditing := False\<rparr>"

text \<open>The states of the record view, read off \<open>renderMainContent\<close>.\<close>

datatype view = NoSession | Browsing | Viewing nat | Creating | Editing nat

definition view_of :: "app_state \<Rightarrow> view" where
  "view_of a =
     (if app_account a = [] then NoSession
      else if isEditing (noteState a)
        then (case selectedNoteId (noteState a) of None \<Rightarrow> Creating | Some i \<Rightarrow> Editing i)
      else (case selectedNoteId (noteState a) of None \<Rightarrow> Browsing | Some i \<Rightarrow> Viewing i))"

text \<open>The only step of a submission that reaches the App is the \<open>onSaved\<close> callback.\<close>

fun app_apply :: "app_state \<Rightarrow> editor_action \<Rightarrow> app_state" where
  "app_apply a (OnSaved i) = a\<lparr>noteState := handleNoteSaved i (noteState a)\<rparr>"
| "app_apply a act = a"

definition app_run :: "app_state \<Rightarrow> editor_action list \<Rightarrow> app_state" where
  "app_run a acts = foldl app_apply a acts"

text \<open>The props the App passes to the editor it renders in edit mode.\<close>

definition editor_props_of :: "string \<Rightarrow> app_state \<Rightarrow> editor_props" where
  "editor_props_of address a =
     \<lparr>contractAddress = address, provider = app_provider a, account = app_account a,
      noteId = selectedNoteId (noteState a), has_onSaved = True, readOnly = False\<rparr>"

section \<open>ConnectWallet\<close>

text \<open>
  The state of the component that the handlers read or write (\<open>initialLoadComplete\<close>
  and \<open>isMenuOpen\<close> only steer the rendering). A handler is given as the list of its
  steps in program order: the state setters, the requests made to the wallet and the
  \<open>onConnected\<close> callback; \<open>wallet_run\<close> applies them to the state.
\<close>

record wallet_state =
  wallet_account :: string
  isConnecting :: bool
  wallet_error :: string
  manuallyDisconnected :: bool

text \<open>What the wallet extension answers during one handler run; \<open>has_ethereum\<close> is
  \<open>window.ethereum\<close>, \<open>now\<close> is \<open>Date.now()\<close>, and \<open>verifyMessage\<close> recovers the signing
  address from a message and a signature (or throws).\<close>

record wallet_env =
  has_ethereum :: bool
  switchEthereumChain :: "js_error + unit"
  addEthereumChain :: "js_error + unit"
  requestAccounts :: "js_error + string list"
  signMessage :: "string \<Rightarrow> js_error + string"
  verifyMessage :: "string \<Rightarrow> string \<Rightarrow> js_error + string"
  now :: nat

datatype wallet_action =
    SetAccount string
  | SetIsConnecting bool
  | SetWalletError string
  | SetManuallyDisconnected bool
  | SwitchChain
  | AddChain
  | RequestAccounts
  | SignMessage string
  | OnConnected string "provider option"

definition challenge :: "string \<Rightarrow> nat \<Rightarrow> string" where
  "challenge address t =
     ''Blockchain Notes App Authentication'' @ [CHR 0x0A] @ ''Address: '' @ address
     @ [CHR 0x0A] @ ''Timestamp: '' @ show_nat t"

definition switchToFluentNetwork :: "wallet_env \<Rightarrow> bool \<times> wallet_action list" where
  "switchToFluentNetwork env =
     (if \<not> has_ethereum env then (False, [])
      else case switchEthereumChain env of
             Inr u \<Rightarrow> (True, [SwitchChain])
           | Inl switchError \<Rightarrow>
               if code switchError = Some 4902
               then (case addEthereumChain env of
                       Inr u \<Rightarrow> (True, [SwitchChain, AddChain])
                     | Inl addError \<Rightarrow>
                         (False, [SwitchChain, AddChain,
                                  SetWalletError ''Failed to add Fluent network to wallet'']))
               else (False, [SwitchChain, SetWalletError ''Failed to switch to Fluent network'']))"

definition signature_failed :: "js_error \<Rightarrow> wallet_action" where
  "signature_failed err =
     SetWalletError
       (if code err = Some 4001 then ''You must sign the message to authenticate with the app.''
        else ''Failed to verify wallet ownership: '' @ or_empty (message err))"

definition requestSignature :: "wallet_env \<Rightarrow> string \<Rightarrow> bool \<times> wallet_action list" where
  "requestSignature env address =
     (let msg = challenge address (now env)
      in case signMessage env msg of
           Inl err \<Rightarrow> (False, [SignMessage msg, signature_failed err])
         | Inr signature \<Rightarrow>
             (case verifyMessage env msg signature of
                Inl err \<Rightarrow> (False, [SignMessage msg, signature_failed err])
              | Inr recoveredAddress \<Rightarrow>
                  if toLowerCase recoveredAddress = toLowerCase address
                  then (True, [SignMessage msg])
                  else (False, [SignMessage msg,
                                SetWalletError
                                  ''Signature verification failed. Please try connecting again.''])))"

definition notify_connected :: "bool \<Rightarrow> string \<Rightarrow> provider option \<Rightarrow> wallet_action list" where
  "notify_connected has_onConnected address p =
     (if has_onConnected then [OnConnected address p] else [])"

text \<open>
  \<open>connectWallet\<close>. The first argument tells whether the \<open>onConnected\<close> prop is set.
  Inside the \<open>try\<close> only the account request throws (\<open>switchToFluentNetwork\<close> and
  \<open>requestSignature\<close> catch their own failures); the early return after a failed
  switch runs \<open>setIsConnecting(false)\<close> and then the \<open>finally\<close> block runs it again.
\<close>

definition connectWallet :: "bool \<Rightarrow> wallet_env \<Rightarrow> wallet_action list" where
  "connectWallet has_onConnected env =
     (if \<not> has_ethereum env
      then [SetWalletError ''No Ethereum wallet detected. Please install MetaMask.'']
      else [SetIsConnecting True, SetWalletError []] @
        (case switchToFluentNetwork env of
           (False, acts) \<Rightarrow> acts @ [SetIsConnecting False, SetIsConnecting False]
         | (True, acts) \<Rightarrow>
             acts @ [RequestAccounts] @
             (case requestAccounts env of
                Inl err \<Rightarrow>
                  [SetWalletError (''Failed to connect wallet. '' @ or_empty (message err))]
              | Inr [] \<Rightarrow> []
              | Inr (address # others) \<Rightarrow>
                  (case requestSignature env address of
                     (True, sacts) \<Rightarrow>
                       sacts @ [SetAccount address]
                       @ notify_connected has_onConnected address (Some Web3Provider)
                   | (False, sacts) \<Rightarrow> sacts @ [SetAccount []]))
             @ [SetIsConnecting False]))"

text \<open>The listener body; \<open>captured\<close> is the value of \<open>manuallyDisconnected\<close> in the
  render that registered it. Nothing inside its \<open>try\<close> throws, so its \<open>catch\<close> branch
  is not taken.\<close>

definition handleAccountsChanged ::
  "bool \<Rightarrow> bool \<Rightarrow> wallet_env \<Rightarrow> string list \<Rightarrow> wallet_action list" where
  "handleAccountsChanged has_onConnected captured env accounts =
     SetAccount [] #
     (case accounts of
        [] \<Rightarrow> []
      | address # others \<Rightarrow>
          if captured then []
          else [SetIsConnecting True, SetWalletError []] @
               (case requestSignature env address of
                  (True, sacts) \<Rightarrow>
                    sacts @ [SetAccount address]
                    @ notify_connected has_onConnected address (Some Web3Provider)
                | (False, sacts) \<Rightarrow> sacts)
               @ [SetIsConnecting False])"

text \<open>An \<open>accountsChanged\<close> notification: the effect registers the listener only
  when \<open>window.ethereum\<close> exists and \<open>manuallyDisconnected\<close> is false, and registers it
  anew whenever that flag changes.\<close>

definition accountsChanged ::
  "bool \<Rightarrow> wallet_state \<Rightarrow> wallet_env \<Rightarrow> string list \<Rightarrow> wallet_action list" where
  "accountsChanged has_onConnected w env accounts =
     (if has_ethereum env \<and> \<not> manuallyDisconnected w
      then handleAccountsChanged has_onConnected (manuallyDisconnected w) env accounts
      else [])"

definition disconnectWallet :: "bool \<Rightarrow> wallet_action list" where
  "disconnectWallet has_onConnected =
     [SetAccount [], SetManuallyDisconnected True] @ notify_connected has_onConnected [] None"

text \<open>The wallet component together with the App it reports to through
  \<open>onConnected\<close> (the App passes \<open>handleConnect\<close>).\<close>

record system =
  wallet :: wallet_state
  app :: app_state

fun wallet_apply :: "system \<Rightarrow> wallet_action \<Rightarrow> system" where
  "wallet_apply s (SetAccount a) = s\<lparr>wallet := (wallet s)\<lparr>wallet_account := a\<rparr>\<rparr>"
| "wallet_apply s (SetIsConnecting b) = s\<lparr>wallet := (wallet s)\<lparr>isConnecting := b\<rparr>\<rparr>"
| "wallet_apply s (SetWalletError m) = s\<lparr>wallet := (wallet s)\<lparr>wallet_error := m\<rparr>\<rparr>"
| "wallet_apply s (SetManuallyDisconnected b) =
     s\<lparr>wallet := (wallet s)\<lparr>manuallyDisconnected := b\<rparr>\<rparr>"
| "wallet_apply s (OnConnected a p) = s\<lparr>app := handleConnect a p (app s)\<rparr>"
| "wallet_apply s act = s"

definition wallet_run :: "system \<Rightarrow> wallet_action list \<Rightarrow> system" where
  "wallet_run s acts = foldl wallet_apply s acts"

text \<open>What the user and the wallet extension can do to the component.\<close>

datatype wallet_event =
    Connect wallet_env
  | Disconnect
  | AccountsChanged wallet_env "string list"

fun event_actions :: "bool \<Rightarrow> wallet_state \<Rightarrow> wallet_event \<Rightarrow> wallet_action list" where
  "event_actions cb w (Connect env) = connectWallet cb env"
| "event_actions cb w Disconnect = disconnectWallet cb"
| "event_actions cb w (AccountsChanged env accounts) = accountsChanged cb w env accounts"

definition wallet_step :: "bool \<Rightarrow> system \<Rightarrow> wallet_event \<Rightarrow> system" where
  "wallet_step cb s ev = wallet_run s (event_actions cb (wallet s) ev)"

definition wallet_steps :: "bool \<Rightarrow> system \<Rightarrow> wallet_event list \<Rightarrow> system" where
  "wallet_steps cb s evs = foldl (wallet_step cb) s evs"

text \<open>A signature request among the steps of a handler.\<close>

fun is_SignMessage :: "wallet_action \<Rightarrow> bool" where
  "is_SignMessage (SignMessage m) = True"
| "is_SignMessage act = False"


section \<open>NotesList: \<open>fetchNotes\<close>\<close>

text \<open>
  An entry of the list (its \<open>formattedDate\<close>, a localised rendering of the timestamp,
  is left out). Ids and timestamps are the numbers \<open>Number(...)\<close> gives, exact below
  \<open>2^53\<close>; a timestamp is \<open>None\<close> where the source computes \<open>NaN\<close>, that is where
  \<open>timestamps[index]\<close> is undefined.
\<close>

record note_entry =
  note_id :: nat
  note_title :: string
  note_timestamp :: "nat option"

record notes_state =
  note_list :: "note_entry list"
  loading :: bool
  notes_error :: string

record notes_env =
  notes_getSigner :: "js_error + unit"
  getNotesList :: "js_error + (nat list \<times> string list \<times> nat list)"

definition format_note :: "string list \<Rightarrow> nat list \<Rightarrow> nat \<times> nat \<Rightarrow> note_entry" where
  "format_note titles timestamps p =
     (case p of (index, i) \<Rightarrow>
        \<lparr>note_id = i,
         note_title = (if index < length titles \<and> titles ! index \<noteq> [] then titles ! index
                       else ''Untitled Note''),
         note_timestamp = (if index < length timestamps then Some (timestamps ! index)
                           else None)\<rparr>)"

definition formattedNotes :: "nat list \<Rightarrow> string list \<Rightarrow> nat list \<Rightarrow> note_entry list" where
  "formattedNotes ids titles timestamps = map (format_note titles timestamps) (enumerate 0 ids)"

text \<open>The comparator \<open>(a, b) => b.timestamp - a.timestamp\<close>; the sort reads a \<open>NaN\<close>
  result as \<open>0\<close>.\<close>

definition compare_notes :: "note_entry \<Rightarrow> note_entry \<Rightarrow> int" where
  "compare_notes a b =
     (case (note_timestamp b, note_timestamp a) of
        (Some tb, Some ta) \<Rightarrow> int tb - int ta
      | (x, y) \<Rightarrow> 0)"

text \<open>\<open>Array.prototype.sort\<close> is stable: elements that compare equal keep their
  order. With a consistent comparator that fixes the result, computed here by
  insertion from the right.\<close>

fun insert_note :: "note_entry \<Rightarrow> note_entry list \<Rightarrow> note_entry list" where
  "insert_note x [] = [x]"
| "insert_note x (y # ys) = (if compare_notes x y \<le> 0 then x # y # ys else y # insert_note x ys)"

definition sort_notes :: "note_entry list \<Rightarrow> note_entry list" where
  "sort_notes xs = foldr insert_note xs []"

definition fetchNotes :: "provider option \<Rightarrow> string \<Rightarrow> string \<Rightarrow> notes_env \<Rightarrow> notes_state" where
  "fetchNotes p acct address env =
     (if p = None \<or> acct = [] \<or> address = []
      then \<lparr>note_list = [], loading = False,
            notes_error = ''Wallet not connected or contract not available.''\<rparr>
      else case notes_getSigner env of
             Inl err \<Rightarrow> \<lparr>note_list = [], loading = False,
                         notes_error = ''Failed to load notes. Please try refreshing.''\<rparr>
           | Inr u \<Rightarrow>
               (case getNotesList env of
                  Inl err \<Rightarrow> \<lparr>note_list = [], loading = False,
                              notes_error = ''Failed to load notes. Please try refreshing.''\<rparr>
                | Inr (ids, titles, timestamps) \<Rightarrow>
                    \<lparr>note_list = sort_notes (formattedNotes ids titles timestamps),
                     loading = False, notes_error = []\<rparr>))"

text \<open>The two orders on list entries that the statements below speak about.\<close>

definition newer_first :: "note_entry \<Rightarrow> note_entry \<Rightarrow> bool" where
  "newer_first a b = (case (note_timestamp a, note_timestamp b) of
                        (Some ta, Some tb) \<Rightarrow> tb \<le> ta
                      | (x, y) \<Rightarrow> False)"

definition newer_then_higher_id :: "note_entry \<Rightarrow> note_entry \<Rightarrow> bool" where
  "newer_then_higher_id a b =
     (case (note_timestamp a, note_timestamp b) of
        (Some ta, Some tb) \<Rightarrow> tb < ta \<or> (tb = ta \<and> note_id b \<le> note_id a)
      | (x, y) \<Rightarrow> False)"

text \<open>The contract's answer has a timestamp for every id (the interface returns
  parallel arrays); every failed call counts as such.\<close>

definition timestamps_cover_ids :: "notes_env \<Rightarrow> bool" where
  "timestamps_cover_ids env =
     (case getNotesList env of
        Inl e \<Rightarrow> True
      | Inr (ids, titles, timestamps) \<Rightarrow> length ids \<le> length timestamps)"

text \<open>The sort key that the comparator amounts to when every timestamp is a number.\<close>

definition desc_key :: "note_entry \<Rightarrow> int" where
  "desc_key n = (case note_timestamp n of None \<Rightarrow> 0 | Some t \<Rightarrow> - int t)"

section \<open>ContractDiagnostics: \<open>runDiagnostics\<close>\<close>

record check_result =
  valid :: bool
  check_error :: "string option"

record diag_results =
  contract :: check_result
  noteCreation :: check_result
  encryption :: check_result

record diag_env =
  address_is_valid :: bool
  diag_getSigner :: "js_error + unit"
  getEncryptionContractAddress :: "js_error + string"
  encryptNote :: "js_error + string"
  getNoteCount :: "js_error + nat"

datatype diag_call = CallGetEncryptionContractAddress | CallEncryptNote | CallGetNoteCount

text \<open>\<open>err.message || "Unknown error"\<close>\<close>

definition or_unknown :: "js_error \<Rightarrow> string" where
  "or_unknown err = (if truthy (message err) then or_empty (message err) else ''Unknown error'')"

definition initial_results :: diag_results where
  "initial_results =
     \<lparr>contract = \<lparr>valid = False, check_error = None\<rparr>,
      noteCreation = \<lparr>valid = False, check_error = None\<rparr>,
      encryption = \<lparr>valid = False, check_error = None\<rparr>\<rparr>"

definition check_address :: "diag_env \<Rightarrow> diag_results \<Rightarrow> diag_results" where
  "check_address env r =
     (if \<not> address_is_valid env
      then r\<lparr>contract := (contract r)\<lparr>check_error := Some ''Invalid contract address format''\<rparr>\<rparr>
      else r)"

text \<open>Each of the three calls sits in a \<open>try\<close> of its own; a step gives the calls made
  so far and the results so far.\<close>

definition check_view :: "diag_env \<Rightarrow> diag_call list \<times> diag_results \<Rightarrow> diag_call list \<times> diag_results" where
  "check_view env cr =
     (case cr of (calls, r) \<Rightarrow>
        (calls @ [CallGetEncryptionContractAddress],
         (case getEncryptionContractAddress env of
            Inr encryptionAddress \<Rightarrow> r\<lparr>contract := (contract r)\<lparr>valid := True\<rparr>\<rparr>
          | Inl viewErr \<Rightarrow>
              r\<lparr>contract := (contract r)\<lparr>check_error :=
                   Some (''Contract exists but view function failed: '' @ or_unknown viewErr)\<rparr>\<rparr>)))"

definition check_encrypt :: "diag_env \<Rightarrow> diag_call list \<times> diag_results \<Rightarrow> diag_call list \<times> diag_results" where
  "check_encrypt env cr =
     (case cr of (calls, r) \<Rightarrow>
        (calls @ [CallEncryptNote],
         (case encryptNote env of
            Inr encryptedData \<Rightarrow> r\<lparr>encryption := (encryption r)\<lparr>valid := True\<rparr>\<rparr>
          | Inl encryptErr \<Rightarrow>
              r\<lparr>encryption := (encryption r)\<lparr>check_error :=
                   Some (''Failed to encrypt test data: '' @ or_unknown encryptErr)\<rparr>\<rparr>)))"

definition check_count :: "diag_env \<Rightarrow> diag_call list \<times> diag_results \<Rightarrow> diag_call list \<times> diag_results" where
  "check_count env cr =
     (case cr of (calls, r) \<Rightarrow>
        (calls @ [CallGetNoteCount],
         (case getNoteCount env of
            Inr n \<Rightarrow> r\<lparr>noteCreation := (noteCreation r)\<lparr>valid := True\<rparr>\<rparr>
          | Inl noteErr \<Rightarrow>
              r\<lparr>noteCreation := (noteCreation r)\<lparr>check_error :=
                   Some (''Failed to check note count: '' @ or_unknown noteErr)\<rparr>\<rparr>)))"

text \<open>\<open>None\<close>: the run returned at once (no provider or no account) and left the
  displayed state alone.\<close>

definition runDiagnostics ::
  "provider option \<Rightarrow> string \<Rightarrow> diag_env \<Rightarrow> (diag_call list \<times> diag_results) option" where
  "runDiagnostics p acct env =
     (if p = None \<or> acct = [] then None
      else Some
        (let r = check_address env initial_results
         in case diag_getSigner env of
              Inl err \<Rightarrow>
                ([], r\<lparr>contract := (contract r)\<lparr>check_error :=
                          Some (''Failed to connect to contract: '' @ or_unknown err)\<rparr>\<rparr>)
            | Inr u \<Rightarrow> check_count env (check_encrypt env (check_view env ([], r)))))"

section \<open>Concrete inputs\<close>

text \<open>Inputs at which the statements below are evaluated.\<close>

definition any_address :: "string \<Rightarrow> bool" where
  "any_address a = True"

definition editing_props :: editor_props where
  "editing_props =
     \<lparr>contractAddress = ''0xc0'', provider = Some Web3Provider, account = ''0xa1'',
      noteId = None, has_onSaved = True, readOnly = False\<rparr>"

definition signed_out_props :: editor_props where
  "signed_out_props =
     \<lparr>contractAddress = ''0xc0'', provider = None, account = [],
      noteId = None, has_onSaved = True, readOnly = False\<rparr>"

definition blank_form :: editor_state where
  "blank_form =
     \<lparr>title = ''  '', content = ''body'', saving = False, error = [], success = [],
      isNewNote = True\<rparr>"

definition filled_form :: editor_state where
  "filled_form =
     \<lparr>title = ''T'', content = ''body'', saving = False, error = [], success = [],
      isNewNote = True\<rparr>"

definition user_rejection :: js_error where
  "user_rejection =
     \<lparr>code = Some 4001, message = Some ''user rejected transaction'',
      nested_message = None, receipt = None, transaction_hash = None\<rparr>"

definition rejecting_env :: submit_env where
  "rejecting_env =
     \<lparr>getSigner = Inr \<lparr>isSigner = True\<rparr>, isAddress = any_address,
      send = Inl user_rejection\<rparr>"

definition rejected_with_provider_error :: js_error where
  "rejected_with_provider_error =
     \<lparr>code = None, message = Some ''user rejected transaction'',
      nested_message = Some ''insufficient funds for gas'', receipt = None,
      transaction_hash = None\<rparr>"

definition reverted_missing_note :: js_error where
  "reverted_missing_note =
     \<lparr>code = None, message = Some ''transaction failed: note does not exist'',
      nested_message = None,
      receipt = Some \<lparr>status = Some 0, transactionHash = Some ''0xabc''\<rparr>,
      transaction_hash = None\<rparr>"

definition note_created_log :: log_event where
  "note_created_log =
     decoded_event ''NoteCreated'' NoteCreated_inputs ''0x5f1a''
       [Address ''0xa1'', Uint 7, Text ''T'']"

definition created_env :: submit_env where
  "created_env =
     \<lparr>getSigner = Inr \<lparr>isSigner = True\<rparr>, isAddress = any_address,
      send = Inr \<lparr>hash = ''0xabc'', wait_first = Inr \<lparr>events = Some [note_created_log]\<rparr>,
                  wait_second = Inr \<lparr>events = Some [note_created_log]\<rparr>\<rparr>\<rparr>"

definition creating_app :: app_state where
  "creating_app =
     \<lparr>app_account = ''0xa1'', app_provider = Some Web3Provider,
      noteState = \<lparr>selectedNoteId = None, isEditing = True\<rparr>\<rparr>"

definition tied_env :: notes_env where
  "tied_env =
     \<lparr>notes_getSigner = Inr (),
      getNotesList = Inr ([1, 2], [''first'', ''second''], [5, 5])\<rparr>"

definition view_failing_env :: diag_env where
  "view_failing_env =
     \<lparr>address_is_valid = True, diag_getSigner = Inr (),
      getEncryptionContractAddress = Inl (new_Error ''call revert exception''),
      encryptNote = Inr ''0x5465'', getNoteCount = Inr 3\<rparr>"

definition sign_ok :: "string \<Rightarrow> js_error + string" where
  "sign_ok m = Inr ''0x5157''"

definition sign_rejected :: "string \<Rightarrow> js_error + string" where
  "sign_rejected m = Inl \<lparr>code = Some 4001, message = Some ''User denied message signature.'',
                          nested_message = None, receipt = None, transaction_hash = None\<rparr>"

definition recover_AB :: "string \<Rightarrow> string \<Rightarrow> js_error + string" where
  "recover_AB m sg = Inr ''0xAB''"

definition signing_env :: wallet_env where
  "signing_env =
     \<lparr>has_ethereum = True, switchEthereumChain = Inr (), addEthereumChain = Inr (),
      requestAccounts = Inr [''0xab''], signMessage = sign_ok, verifyMessage = recover_AB,
      now = 17\<rparr>"

definition refusing_env :: wallet_env where
  "refusing_env =
     \<lparr>has_ethereum = True, switchEthereumChain = Inr (), addEthereumChain = Inr (),
      requestAccounts = Inr [''0xcd''], signMessage = sign_rejected, verifyMessage = recover_AB,
      now = 18\<rparr>"

definition initial_system :: system where
  "initial_system =
     \<lparr>wallet = \<lparr>wallet_account = [], isConnecting = False, wallet_error = [],
                 manuallyDisconnected = False\<rparr>,
      app = \<lparr>app_account = [], app_provider = None,
              noteState = \<lparr>selectedNoteId = None, isEditing = False\<rparr>\<rparr>\<rparr>"

definition connected_system :: system where
  "connected_system = wallet_step True initial_system (Connect signing_env)"

definition reconnected_system :: system where
  "reconnected_system =
     wallet_steps True initial_system [Connect signing_env, Disconnect, Connect signing_env]"

section \<open>Properties of \<open>handleSubmit\<close>\<close>

lemma trim_blank:
  assumes "list_all is_whitespace s"
  shows "trim s = []"
proof -
  from assms have h: "dropWhile is_whitespace s = []" by (simp add: list_all_iff)
  show ?thesis by (simp only: trim_def h dropWhile.simps rev.simps)
qed

lemma save_attempt_silent: "OnSaved i \<notin> set (fst (save_attempt props st env))"
  by (auto simp add: save_attempt_def dispatch_and_confirm_def Let_def
           split: sum.splits if_splits prod.splits)

lemma save_attempt_no_error: "SetError m \<notin> set (fst (save_attempt props st env))"
  by (auto simp add: save_attempt_def dispatch_and_confirm_def Let_def
           split: sum.splits if_splits prod.splits)

lemma editor_run_append: "editor_run st (xs @ ys) = editor_run (editor_run st xs) ys"
  by (simp add: editor_run_def)

lemma error_editor_run_no_SetError:
  "\<forall>m. SetError m \<notin> set acts \<Longrightarrow> error (editor_run st acts) = error st"
proof (induction acts arbitrary: st)
  case Nil
  then show ?case by (simp add: editor_run_def)
next
  case (Cons a acts)
  then have "error (editor_apply st a) = error st" by (cases a) auto
  with Cons show ?case by (simp add: editor_run_def)
qed

lemma app_run_no_OnSaved:
  "\<forall>i. OnSaved i \<notin> set acts \<Longrightarrow> app_run a acts = a"
proof (induction acts)
  case Nil
  then show ?case by (simp add: app_run_def)
next
  case (Cons x acts)
  then have "app_apply a x = a" by (cases x) auto
  with Cons show ?case by (simp add: app_run_def)
qed

lemma handleSubmit_success_clears_error:
  assumes "\<not> readOnly props" "trim (title st) \<noteq> []"
    "\<not> (provider props = None \<or> account props = [] \<or> contractAddress props = [])"
    "save_attempt props st env = (acts, Inr saved)"
  shows "error (editor_run st (handleSubmit props st env)) = []"
proof -
  let ?tail = "acts @ [SetSaving False] @ (if has_onSaved props then [OnSaved saved] else [])"
  have hs: "handleSubmit props st env = [SetSaving True, SetError [], SetSuccess []] @ ?tail"
    using assms by (simp add: handleSubmit_def)
  have "SetError m \<notin> set acts" for m
    using save_attempt_no_error [of m props st env] assms(4) by simp
  then have "\<forall>m. SetError m \<notin> set ?tail" by simp
  then have "error (editor_run (editor_run st [SetSaving True, SetError [], SetSuccess []]) ?tail)
             = error (editor_run st [SetSaving True, SetError [], SetSuccess []])"
    by (rule error_editor_run_no_SetError)
  also have "\<dots> = []" by (simp add: editor_run_def)
  finally show ?thesis unfolding hs editor_run_append .
qed

lemma handleSubmit_failure_silent:
  assumes "save_attempt props st env = (acts, Inl err)"
  shows "OnSaved i \<notin> set (handleSubmit props st env)"
proof -
  have "OnSaved i \<notin> set acts"
    using save_attempt_silent [of i props st env] assms by simp
  then show ?thesis using assms by (simp add: handleSubmit_def)
qed

text \<open>
  C10. A submission in edit mode whose title is empty or all white space sets the
  title error and does nothing else: no contract call is made, and the title, the
  content and the new-note flag of the form are as before. (In read-only mode the
  handler returns before the validation and saves nothing.)
\<close>

theorem blank_title_not_dispatched:
  assumes "list_all is_whitespace (title st)" and "\<not> readOnly props"
  shows "handleSubmit props st env = [SetError ''Please enter a title for your note'']
       \<and> \<not> list_ex is_dispatch (handleSubmit props st env)
       \<and> title (editor_run st (handleSubmit props st env)) = title st
       \<and> content (editor_run st (handleSubmit props st env)) = content st
       \<and> isNewNote (editor_run st (handleSubmit props st env)) = isNewNote st"
  using assms by (simp add: handleSubmit_def trim_blank editor_run_def)

theorem blank_title_not_dispatched_witness:
  "list_all is_whitespace (title blank_form) \<and> \<not> readOnly editing_props
   \<and> handleSubmit editing_props blank_form rejecting_env
       = [SetError ''Please enter a title for your note'']
   \<and> content (editor_run blank_form (handleSubmit editing_props blank_form rejecting_env))
       = content blank_form"
proof -
  have h1: "list_all is_whitespace (title blank_form)"
    by (simp add: blank_form_def is_whitespace_def)
  have h2: "\<not> readOnly editing_props" by (simp add: editing_props_def)
  show ?thesis
    using h1 h2 blank_title_not_dispatched [OF h1 h2, of rejecting_env]
    by blast
qed

text \<open>
  C4, as stated: a submission without a session fails with the unauthenticated
  error. With a blank title it does not: the title check comes first.
\<close>

theorem unauthenticated_blank_title_counterexample:
  "provider signed_out_props = None
   \<and> handleSubmit signed_out_props blank_form rejecting_env
       = [SetError ''Please enter a title for your note'']
   \<and> handleSubmit signed_out_props blank_form rejecting_env
       \<noteq> [SetError ''Please connect your wallet first'']"
  by (simp add: handleSubmit_def signed_out_props_def blank_form_def trim_def is_whitespace_def)

text \<open>
  C4, amended. A submission in edit mode while the provider, the account or the
  contract address is missing dispatches no transaction and sets exactly one error:
  the unauthenticated error when the title is not blank, the title error when it is.
\<close>

theorem unauthenticated_not_dispatched:
  assumes "provider props = None \<or> account props = [] \<or> contractAddress props = []"
    and "\<not> readOnly props"
  shows "handleSubmit props st env =
           [SetError (if trim (title st) = [] then ''Please enter a title for your note''
                      else ''Please connect your wallet first'')]
         \<and> \<not> list_ex is_dispatch (handleSubmit props st env)"
  using assms by (auto simp add: handleSubmit_def)

theorem unauthenticated_not_dispatched_witness:
  "(provider signed_out_props = None \<or> account signed_out_props = []
      \<or> contractAddress signed_out_props = [])
   \<and> \<not> readOnly signed_out_props
   \<and> handleSubmit signed_out_props filled_form rejecting_env
       = [SetError ''Please connect your wallet first'']"
proof -
  have h1: "provider signed_out_props = None \<or> account signed_out_props = []
            \<or> contractAddress signed_out_props = []"
    by (simp add: signed_out_props_def)
  have h2: "\<not> readOnly signed_out_props" by (simp add: signed_out_props_def)
  show ?thesis
    using h1 h2 unauthenticated_not_dispatched [OF h1 h2, of filled_form rejecting_env]
    by (simp add: filled_form_def trim_def is_whitespace_def)
qed

text \<open>
  C8. A submission that ends with an error message never calls \<open>onSaved\<close>, so the
  App state (the selection and the edit flag, hence the view) is what it was.
\<close>

theorem failed_save_keeps_view:
  assumes "error (editor_run st (handleSubmit props st env)) \<noteq> []"
  shows "(\<forall>i. OnSaved i \<notin> set (handleSubmit props st env))
       \<and> app_run a (handleSubmit props st env) = a
       \<and> view_of (app_run a (handleSubmit props st env)) = view_of a"
proof -
  have silent: "\<forall>i. OnSaved i \<notin> set (handleSubmit props st env)"
  proof (cases "readOnly props \<or> trim (title st) = []
                \<or> provider props = None \<or> account props = [] \<or> contractAddress props = []")
    case True
    then show ?thesis by (auto simp add: handleSubmit_def)
  next
    case False
    obtain acts res where sa: "save_attempt props st env = (acts, res)"
      by (cases "save_attempt props st env")
    show ?thesis
    proof (cases res)
      case (Inl err)
      with sa show ?thesis using handleSubmit_failure_silent by blast
    next
      case (Inr saved)
      with sa False have "error (editor_run st (handleSubmit props st env)) = []"
        using handleSubmit_success_clears_error by blast
      with assms show ?thesis by simp
    qed
  qed
  then show ?thesis using app_run_no_OnSaved by simp
qed

lemma errorMessage_nonempty: "errorMessage err \<noteq> []"
  by (simp add: errorMessage_def)

lemma rejected_submission_error:
  "error (editor_run filled_form (handleSubmit editing_props filled_form rejecting_env)) \<noteq> []"
  by (simp add: handleSubmit_def editing_props_def filled_form_def rejecting_env_def
        trim_def is_whitespace_def save_attempt_def dispatch_and_confirm_def any_address_def
        editor_run_def errorMessage_nonempty)

theorem failed_save_keeps_view_witness:
  "error (editor_run filled_form (handleSubmit editing_props filled_form rejecting_env)) \<noteq> []
   \<and> (\<forall>i. OnSaved i \<notin> set (handleSubmit editing_props filled_form rejecting_env))
   \<and> view_of (app_run creating_app (handleSubmit editing_props filled_form rejecting_env))
       = Creating"
  using rejected_submission_error
    failed_save_keeps_view [OF rejected_submission_error, of creating_app]
  by (simp add: view_of_def creating_app_def)

subsection \<open>Failure classification\<close>

lemma failure_text_new_Error:
  "m \<noteq> [] \<Longrightarrow> failure_text (new_Error m) = pattern_text m"
  by (simp add: failure_text_def new_Error_def receiptStatus_def message_includes_def
        pattern_text_def)

lemma pattern_text_rejected:
  "pattern_text ''Transaction was rejected in your wallet.''
     = ''Transaction was rejected in your wallet.''"
  by (simp add: pattern_text_def)

lemma pattern_text_missing:
  "pattern_text ''Note does not exist or you don't have permission to edit it.''
     = ''Note does not exist or you don't have permission to edit it.''"
  by (simp add: pattern_text_def)

lemma pattern_text_unregistered:
  "pattern_text ''Your wallet isn't correctly registered with the contract.''
     = ''Your wallet isn't correctly registered with the contract.''"
  by (simp add: pattern_text_def)

lemma failure_text_plain:
  "receiptStatus e \<noteq> Some 0 \<Longrightarrow> truthy (message e)
   \<Longrightarrow> failure_text e = pattern_text (or_empty (message e))"
  by (simp add: failure_text_def message_includes_def pattern_text_def)

lemma classification: "failure_text (inner_catch e) = precedence_text e"
proof -
  consider (nested) "truthy (nested_message e)"
    | (rejected) "\<not> truthy (nested_message e)" "message_includes e ''user rejected''"
    | (missing) "\<not> truthy (nested_message e)" "\<not> message_includes e ''user rejected''"
        "message_includes e ''note does not exist''"
    | (unregistered) "\<not> truthy (nested_message e)" "\<not> message_includes e ''user rejected''"
        "\<not> message_includes e ''note does not exist''" "message_includes e ''registered''"
    | (other) "\<not> truthy (nested_message e)" "\<not> message_includes e ''user rejected''"
        "\<not> message_includes e ''note does not exist''" "\<not> message_includes e ''registered''"
    by blast
  then show ?thesis
  proof cases
    case nested
    then have "or_empty (nested_message e) \<noteq> []" by (cases "nested_message e") auto
    with nested show ?thesis
      by (simp add: inner_catch_def precedence_text_def failure_text_new_Error)
  next
    case rejected
    then show ?thesis
      by (simp add: inner_catch_def precedence_text_def failure_text_new_Error
            pattern_text_rejected)
  next
    case missing
    then show ?thesis
      by (simp add: inner_catch_def precedence_text_def failure_text_new_Error
            pattern_text_missing)
  next
    case unregistered
    then show ?thesis
      by (simp add: inner_catch_def precedence_text_def failure_text_new_Error
            pattern_text_unregistered)
  next
    case other
    then have ic: "inner_catch e = e" by (simp add: inner_catch_def)
    show ?thesis
    proof (cases "receiptStatus e = Some 0")
      case True
      with other show ?thesis by (simp add: ic precedence_text_def failure_text_def)
    next
      case False
      with other show ?thesis
        by (cases "truthy (message e)")
           (simp_all add: ic precedence_text_def failure_text_plain,
            simp add: failure_text_def message_includes_def)
    qed
  qed
qed

lemma save_attempt_no_error_report:
  "filter is_error_report (fst (save_attempt props st env)) = []"
  by (auto simp add: save_attempt_def dispatch_and_confirm_def Let_def
           split: sum.splits if_splits prod.splits)

text \<open>
  C7, as stated: rejection comes first and a zero receipt status comes before every
  message pattern. A rejection that carries a nested provider message is classified
  by that message, and a reverted transaction whose message matches a pattern of the
  inner handler is classified by the pattern.
\<close>

theorem classification_precedence_counterexample:
  "message_includes rejected_with_provider_error ''user rejected''
   \<and> failure_text (inner_catch rejected_with_provider_error)
       = ''Your wallet doesn't have enough ETH to pay for this transaction.''
   \<and> receiptStatus reverted_missing_note = Some 0
   \<and> \<not> message_includes reverted_missing_note ''user rejected''
   \<and> failure_text (inner_catch reverted_missing_note)
       = ''Note does not exist or you don't have permission to edit it.''"
  by (simp add: classification precedence_text_def pattern_text_def message_includes_def
        rejected_with_provider_error_def reverted_missing_note_def receiptStatus_def)

text \<open>
  C7, amended. What the handlers make of a value thrown by dispatch or confirmation
  is \<open>precedence_text\<close>: nested provider message, rejection, the inner patterns, zero
  receipt status, the outer patterns or the message itself, unknown, in this order.
  Such a value reaches the outer handler through the inner one, and a submission
  whose save attempt throws reports exactly one error, built from the text for the
  value that reached the outer handler.
\<close>

theorem classification_precedence:
  "failure_text (inner_catch e) = precedence_text e
   \<and> (getSigner env = Inr sg \<and> isAddress env (contractAddress props) \<and> isSigner sg
        \<and> dispatch_and_confirm props st env = (dacts, Inl e)
      \<longrightarrow> save_attempt props st env = (GetSigner # dacts, Inl (inner_catch e)))
   \<and> (\<not> readOnly props \<and> trim (title st) \<noteq> [] \<and> provider props \<noteq> None
        \<and> account props \<noteq> [] \<and> contractAddress props \<noteq> []
        \<and> save_attempt props st env = (acts, Inl err)
      \<longrightarrow> filter is_error_report (handleSubmit props st env)
            = [SetError (''Failed to save note. '' @ failure_text err @ suggestions)])"
proof (intro conjI impI)
  show "failure_text (inner_catch e) = precedence_text e" by (rule classification)
next
  assume "getSigner env = Inr sg \<and> isAddress env (contractAddress props) \<and> isSigner sg
        \<and> dispatch_and_confirm props st env = (dacts, Inl e)"
  then show "save_attempt props st env = (GetSigner # dacts, Inl (inner_catch e))"
    by (simp add: save_attempt_def)
next
  assume a: "\<not> readOnly props \<and> trim (title st) \<noteq> [] \<and> provider props \<noteq> None
        \<and> account props \<noteq> [] \<and> contractAddress props \<noteq> []
        \<and> save_attempt props st env = (acts, Inl err)"
  then have hs: "handleSubmit props st env =
           [SetSaving True, SetError [], SetSuccess []] @ acts
           @ [SetError (errorMessage err), SetSaving False]"
    by (simp add: handleSubmit_def)
  from a have "filter is_error_report acts = []"
    using save_attempt_no_error_report [of props st env] by simp
  then show "filter is_error_report (handleSubmit props st env)
            = [SetError (''Failed to save note. '' @ failure_text err @ suggestions)]"
    unfolding hs by (simp add: errorMessage_def)
qed

lemma rejecting_env_dispatch:
  "\<not> readOnly editing_props \<and> trim (title filled_form) \<noteq> []
   \<and> provider editing_props \<noteq> None \<and> account editing_props \<noteq> []
   \<and> contractAddress editing_props \<noteq> []
   \<and> getSigner rejecting_env = Inr \<lparr>isSigner = True\<rparr>
   \<and> isAddress rejecting_env (contractAddress editing_props) \<and> isSigner \<lparr>isSigner = True\<rparr>
   \<and> dispatch_and_confirm editing_props filled_form rejecting_env
       = ([CreateNote ''T'' ''body''], Inl user_rejection)"
  by (simp add: editing_props_def filled_form_def rejecting_env_def trim_def is_whitespace_def
        any_address_def dispatch_and_confirm_def)

lemma precedence_text_user_rejection:
  "precedence_text user_rejection = ''Transaction was rejected in your wallet.''"
  by (simp add: precedence_text_def user_rejection_def message_includes_def)

theorem classification_precedence_witness:
  "dispatch_and_confirm editing_props filled_form rejecting_env
       = ([CreateNote ''T'' ''body''], Inl user_rejection)
   \<and> failure_text (inner_catch user_rejection) = ''Transaction was rejected in your wallet.''
   \<and> save_attempt editing_props filled_form rejecting_env
       = ([GetSigner, CreateNote ''T'' ''body''], Inl (inner_catch user_rejection))
   \<and> filter is_error_report (handleSubmit editing_props filled_form rejecting_env)
       = [SetError (''Failed to save note. '' @ ''Transaction was rejected in your wallet.''
                    @ suggestions)]"
proof -
  note c = classification_precedence [of user_rejection rejecting_env "\<lparr>isSigner = True\<rparr>"
      editing_props filled_form "[CreateNote ''T'' ''body'']"
      "[GetSigner, CreateNote ''T'' ''body'']" "inner_catch user_rejection"]
  from c have t: "failure_text (inner_catch user_rejection)
                  = ''Transaction was rejected in your wallet.''"
    by (simp add: precedence_text_user_rejection)
  from c rejecting_env_dispatch
  have sa: "save_attempt editing_props filled_form rejecting_env
       = ([GetSigner, CreateNote ''T'' ''body''], Inl (inner_catch user_rejection))"
    by blast
  from c rejecting_env_dispatch sa
  have "filter is_error_report (handleSubmit editing_props filled_form rejecting_env)
       = [SetError (''Failed to save note. '' @ failure_text (inner_catch user_rejection)
                    @ suggestions)]"
    by blast
  with t sa rejecting_env_dispatch show ?thesis by simp
qed

subsection \<open>The view after a save\<close>

lemma saved_positive_id_viewed:
  assumes "view_of a = Creating" "0 < n"
  shows "view_of (app_apply a (OnSaved (Some n))) = Viewing n"
  using assms by (auto simp add: view_of_def handleNoteSaved_def split: if_splits option.splits)

lemma saved_null_id_browsing:
  assumes "view_of a = Creating"
  shows "view_of (app_apply a (OnSaved None)) = Browsing"
  using assms by (auto simp add: view_of_def handleNoteSaved_def split: if_splits option.splits)

lemma saved_update_viewed:
  assumes "view_of a = Editing n"
  shows "view_of (app_apply a (OnSaved (Some n))) = Viewing n"
  using assms by (auto simp add: view_of_def handleNoteSaved_def split: if_splits option.splits)

lemma decoded_NoteCreated_has_no_noteId:
  "args_noteId (decoded_event name NoteCreated_inputs topic values) = None"
proof -
  have "''noteId'' \<notin> set NoteCreated_inputs" by (simp add: NoteCreated_inputs_def)
  then have "''noteId'' \<notin> fst ` set (zip NoteCreated_inputs values)"
    by (auto dest: set_zip_leftD)
  then have "map_of (zip NoteCreated_inputs values) ''noteId'' = None"
    by (simp add: map_of_eq_None_iff)
  then show ?thesis by (simp add: decoded_event_def)
qed

lemma extract_note_id_without_noteId:
  assumes "\<forall>ev \<in> set evs. args_noteId ev = None"
  shows "extract_note_id \<lparr>events = Some evs\<rparr> = None"
proof (cases "find is_NoteCreated evs")
  case None
  then show ?thesis by (simp add: extract_note_id_def)
next
  case (Some ev)
  then have "ev \<in> set evs" by (auto simp add: find_Some_iff)
  with assms Some show ?thesis by (simp add: extract_note_id_def)
qed

lemma created_submission:
  "handleSubmit (editor_props_of ''0xc0'' creating_app) filled_form created_env =
     [SetSaving True, SetError [], SetSuccess [], GetSigner, CreateNote ''T'' ''body'', WaitTx,
      SetSuccess ''Note created successfully!'', WaitTx, SetSaving False, OnSaved None]"
proof -
  have "extract_note_id \<lparr>events = Some [note_created_log]\<rparr> = None"
    by (rule extract_note_id_without_noteId)
       (simp add: note_created_log_def decoded_NoteCreated_has_no_noteId)
  then show ?thesis
    by (simp add: handleSubmit_def editor_props_of_def creating_app_def filled_form_def
          created_env_def trim_def is_whitespace_def save_attempt_def dispatch_and_confirm_def
          any_address_def)
qed

text \<open>
  C5, at a confirmed creation. The receipt holds the \<open>NoteCreated\<close> event of the new
  note, decoded with the inputs the ABI declares: its id, 7, sits under \<open>note_id\<close>.
  The handler finds the event but reads \<open>args.noteId\<close>, which the decoded event does
  not have, so it hands \<open>null\<close> to \<open>onSaved\<close> and the view is \<open>Browsing\<close>, not
  \<open>Viewing 7\<close>.
\<close>

theorem created_note_id_not_recovered:
  "view_of creating_app = Creating
   \<and> is_NoteCreated note_created_log
   \<and> extract_note_id \<lparr>events = Some [note_created_log]\<rparr> = None
   \<and> OnSaved None
       \<in> set (handleSubmit (editor_props_of ''0xc0'' creating_app) filled_form created_env)
   \<and> view_of (app_run creating_app
        (handleSubmit (editor_props_of ''0xc0'' creating_app) filled_form created_env))
       = Browsing"
proof -
  have "is_NoteCreated note_created_log"
    by (simp add: is_NoteCreated_def note_created_log_def decoded_event_def)
  moreover have "extract_note_id \<lparr>events = Some [note_created_log]\<rparr> = None"
    by (rule extract_note_id_without_noteId)
       (simp add: note_created_log_def decoded_NoteCreated_has_no_noteId)
  ultimately show ?thesis
    unfolding created_submission
    by (simp add: app_run_def handleNoteSaved_def view_of_def creating_app_def)
qed

section \<open>Properties of \<open>fetchNotes\<close>\<close>

lemma insert_note_insort:
  assumes "note_timestamp x \<noteq> None" "\<forall>y \<in> set ys. note_timestamp y \<noteq> None"
  shows "insert_note x ys = insort_key desc_key x ys"
  using assms
  by (induction ys) (auto simp add: compare_notes_def desc_key_def)

lemma sort_notes_sort_key:
  assumes "\<forall>y \<in> set xs. note_timestamp y \<noteq> None"
  shows "sort_notes xs = sort_key desc_key xs"
  using assms
proof (induction xs)
  case Nil
  then show ?case by (simp add: sort_notes_def)
next
  case (Cons x xs)
  then have ih: "foldr insert_note xs [] = sort_key desc_key xs" by (simp add: sort_notes_def)
  have "\<forall>y \<in> set (sort_key desc_key xs). note_timestamp y \<noteq> None" using Cons.prems by simp
  then show ?case using Cons.prems ih by (simp add: sort_notes_def insert_note_insort)
qed

lemma formattedNotes_timestamps:
  assumes "length ids \<le> length timestamps"
  shows "\<forall>n \<in> set (formattedNotes ids titles timestamps). note_timestamp n \<noteq> None"
proof
  fix n assume "n \<in> set (formattedNotes ids titles timestamps)"
  then obtain p where p: "p \<in> set (enumerate 0 ids)" and n: "n = format_note titles timestamps p"
    by (auto simp add: formattedNotes_def)
  obtain index i where pi: "p = (index, i)" by (cases p)
  with p have "index < length ids" by (simp add: in_set_enumerate_eq)
  with assms n pi show "note_timestamp n \<noteq> None" by (simp add: format_note_def)
qed

lemma sorted_desc_key_newer_first:
  assumes "\<forall>n \<in> set xs. note_timestamp n \<noteq> None" "sorted (map desc_key xs)"
  shows "sorted_wrt newer_first xs"
  using assms
  by (induction xs) (fastforce simp add: newer_first_def desc_key_def)+

lemma sort_notes_sorted:
  assumes "\<forall>n \<in> set xs. note_timestamp n \<noteq> None"
  shows "sorted_wrt newer_first (sort_notes xs)"
proof -
  have "sorted (map desc_key (sort_key desc_key xs))" by (rule sorted_sort_key)
  moreover have "\<forall>n \<in> set (sort_key desc_key xs). note_timestamp n \<noteq> None" using assms by simp
  ultimately show ?thesis using assms by (simp add: sort_notes_sort_key sorted_desc_key_newer_first)
qed

lemma sort_notes_stable:
  assumes "\<forall>n \<in> set xs. note_timestamp n \<noteq> None"
  shows "filter (\<lambda>n. note_timestamp n = t) (sort_notes xs) = filter (\<lambda>n. note_timestamp n = t) xs"
proof (cases t)
  case None
  have "\<forall>n \<in> set (sort_key desc_key xs). note_timestamp n \<noteq> None" using assms by simp
  with assms None show ?thesis by (simp add: sort_notes_sort_key filter_False del: set_sort) 
next
  case (Some v)
  have eq: "(\<lambda>n. note_timestamp n = Some v) = (\<lambda>n. desc_key n = - int v \<and> note_timestamp n \<noteq> None)"
    by (auto simp add: desc_key_def)
  have "filter (\<lambda>n. desc_key n = - int v) (sort_key desc_key xs) = filter (\<lambda>n. desc_key n = - int v) xs"
    by (rule sort_key_stable)
  moreover have "filter (\<lambda>n. note_timestamp n = Some v) ys = filter (\<lambda>n. desc_key n = - int v) ys"
    if "\<forall>n \<in> set ys. note_timestamp n \<noteq> None" for ys
    using that by (intro filter_cong) (auto simp add: desc_key_def)
  ultimately show ?thesis using assms Some by (simp add: sort_notes_sort_key)
qed

lemma mset_sort_notes: "mset (sort_notes xs) = mset xs"
proof -
  have "mset (insert_note x ys) = add_mset x (mset ys)" for x ys
    by (induction ys) auto
  then show ?thesis by (induction xs) (auto simp add: sort_notes_def)
qed


lemma tied_fetch:
  "note_list (fetchNotes (Some Web3Provider) ''0xa1'' ''0xc0'' tied_env)
     = [\<lparr>note_id = 1, note_title = ''first'', note_timestamp = Some 5\<rparr>,
        \<lparr>note_id = 2, note_title = ''second'', note_timestamp = Some 5\<rparr>]"
  by (simp add: fetchNotes_def tied_env_def formattedNotes_def format_note_def sort_notes_def
        compare_notes_def)

text \<open>
  C6, as stated: ties between equal timestamps are broken by id, highest first. Two
  notes of one timestamp that the contract returns as 1, 2 stay in that order.
\<close>

theorem tied_notes_keep_order_counterexample:
  "map note_id (note_list (fetchNotes (Some Web3Provider) ''0xa1'' ''0xc0'' tied_env)) = [1, 2]
   \<and> map note_timestamp (note_list (fetchNotes (Some Web3Provider) ''0xa1'' ''0xc0'' tied_env))
       = [Some 5, Some 5]
   \<and> \<not> sorted_wrt newer_then_higher_id
         (note_list (fetchNotes (Some Web3Provider) ''0xa1'' ''0xc0'' tied_env))"
  unfolding tied_fetch by (simp add: newer_then_higher_id_def)

text \<open>
  C6, amended. After every fetch the cached list is in descending order of
  timestamp, and the notes of one timestamp are in the order in which the contract
  returned them (the comparator looks at the timestamp only, and the sort is stable).
\<close>

theorem fetched_notes_newest_first:
  assumes "timestamps_cover_ids env"
  shows "sorted_wrt newer_first (note_list (fetchNotes p acct address env))
       \<and> (\<forall>ids titles timestamps t.
            p \<noteq> None \<and> acct \<noteq> [] \<and> address \<noteq> [] \<and> notes_getSigner env = Inr ()
            \<and> getNotesList env = Inr (ids, titles, timestamps)
            \<longrightarrow> filter (\<lambda>n. note_timestamp n = t) (note_list (fetchNotes p acct address env))
                = filter (\<lambda>n. note_timestamp n = t) (formattedNotes ids titles timestamps))"
proof (intro conjI allI impI)
  show "sorted_wrt newer_first (note_list (fetchNotes p acct address env))"
  proof (cases "getNotesList env")
    case (Inl e)
    then show ?thesis by (simp add: fetchNotes_def split: sum.splits)
  next
    case (Inr res)
    obtain ids titles timestamps where res: "res = (ids, titles, timestamps)" by (cases res)
    with Inr assms have "length ids \<le> length timestamps"
      by (simp add: timestamps_cover_ids_def)
    then have "sorted_wrt newer_first (sort_notes (formattedNotes ids titles timestamps))"
      by (intro sort_notes_sorted formattedNotes_timestamps)
    with Inr res show ?thesis by (simp add: fetchNotes_def split: sum.splits)
  qed
next
  fix ids titles timestamps t
  assume a: "p \<noteq> None \<and> acct \<noteq> [] \<and> address \<noteq> [] \<and> notes_getSigner env = Inr ()
            \<and> getNotesList env = Inr (ids, titles, timestamps)"
  with assms have "length ids \<le> length timestamps"
    by (simp add: timestamps_cover_ids_def)
  then have "filter (\<lambda>n. note_timestamp n = t) (sort_notes (formattedNotes ids titles timestamps))
             = filter (\<lambda>n. note_timestamp n = t) (formattedNotes ids titles timestamps)"
    by (intro sort_notes_stable formattedNotes_timestamps)
  with a show "filter (\<lambda>n. note_timestamp n = t) (note_list (fetchNotes p acct address env))
                = filter (\<lambda>n. note_timestamp n = t) (formattedNotes ids titles timestamps)"
    by (auto simp add: fetchNotes_def)
qed

theorem fetched_notes_newest_first_witness:
  "timestamps_cover_ids tied_env \<and> getNotesList tied_env = Inr ([1, 2], [''first'', ''second''], [5, 5])
   \<and> sorted_wrt newer_first (note_list (fetchNotes (Some Web3Provider) ''0xa1'' ''0xc0'' tied_env))
   \<and> filter (\<lambda>n. note_timestamp n = Some 5)
        (note_list (fetchNotes (Some Web3Provider) ''0xa1'' ''0xc0'' tied_env))
      = filter (\<lambda>n. note_timestamp n = Some 5) (formattedNotes [1, 2] [''first'', ''second''] [5, 5])"
proof -
  have h: "timestamps_cover_ids tied_env"
    by (simp add: timestamps_cover_ids_def tied_env_def)
  have g: "getNotesList tied_env = Inr ([1, 2], [''first'', ''second''], [5, 5])"
    and s: "notes_getSigner tied_env = Inr ()"
    by (simp_all add: tied_env_def)
  note r = fetched_notes_newest_first [where env = tied_env and p = "Some Web3Provider"
      and acct = "''0xa1''" and address = "''0xc0''", OF h]
  from r have s1: "sorted_wrt newer_first
      (note_list (fetchNotes (Some Web3Provider) ''0xa1'' ''0xc0'' tied_env))"
    by blast
  from r g s have s2: "filter (\<lambda>n. note_timestamp n = Some 5)
        (note_list (fetchNotes (Some Web3Provider) ''0xa1'' ''0xc0'' tied_env))
      = filter (\<lambda>n. note_timestamp n = Some 5)
          (formattedNotes [1, 2] [''first'', ''second''] [5, 5])"
    by blast
  from h g s1 s2 show ?thesis by blast
qed

section \<open>Properties of \<open>runDiagnostics\<close>\<close>

text \<open>
  C9. Once the signer and the contract handle exist, a run makes all three calls, in
  order, whatever the view call answers, and each result slot is decided by the
  answer to its own call alone (the contract slot by the view call, with the address
  format noted when the call succeeds).
\<close>

theorem diagnostics_checks_independent:
  assumes "p \<noteq> None" "acct \<noteq> []" "diag_getSigner env = Inr u"
  shows "runDiagnostics p acct env =
           Some ([CallGetEncryptionContractAddress, CallEncryptNote, CallGetNoteCount],
                 \<lparr>contract =
                    (case getEncryptionContractAddress env of
                       Inr a \<Rightarrow> \<lparr>valid = True,
                                  check_error = (if address_is_valid env then None
                                                 else Some ''Invalid contract address format'')\<rparr>
                     | Inl viewErr \<Rightarrow>
                         \<lparr>valid = False,
                          check_error = Some (''Contract exists but view function failed: ''
                                              @ or_unknown viewErr)\<rparr>),
                  noteCreation =
                    (case getNoteCount env of
                       Inr n \<Rightarrow> \<lparr>valid = True, check_error = None\<rparr>
                     | Inl noteErr \<Rightarrow>
                         \<lparr>valid = False,
                          check_error = Some (''Failed to check note count: ''
                                              @ or_unknown noteErr)\<rparr>),
                  encryption =
                    (case encryptNote env of
                       Inr d \<Rightarrow> \<lparr>valid = True, check_error = None\<rparr>
                     | Inl encryptErr \<Rightarrow>
                         \<lparr>valid = False,
                          check_error = Some (''Failed to encrypt test data: ''
                                              @ or_unknown encryptErr)\<rparr>)\<rparr>)"
  using assms
  by (cases "getEncryptionContractAddress env"; cases "encryptNote env";
      cases "getNoteCount env")
     (auto simp add: runDiagnostics_def check_address_def check_view_def check_encrypt_def
        check_count_def initial_results_def Let_def)

theorem diagnostics_checks_independent_witness:
  "diag_getSigner view_failing_env = Inr ()
   \<and> runDiagnostics (Some Web3Provider) ''0xa1'' view_failing_env =
       Some ([CallGetEncryptionContractAddress, CallEncryptNote, CallGetNoteCount],
             \<lparr>contract = \<lparr>valid = False,
                  check_error = Some ''Contract exists but view function failed: call revert exception''\<rparr>,
              noteCreation = \<lparr>valid = True, check_error = None\<rparr>,
              encryption = \<lparr>valid = True, check_error = None\<rparr>\<rparr>)"
proof -
  have h: "diag_getSigner view_failing_env = Inr ()" by (simp add: view_failing_env_def)
  have "Some Web3Provider \<noteq> None" "''0xa1'' \<noteq> []" by simp_all
  from diagnostics_checks_independent [OF this h] h show ?thesis
    by (simp add: view_failing_env_def or_unknown_def new_Error_def)
qed

section \<open>Properties of ConnectWallet\<close>

lemma requestSignature_actions:
  "a \<in> set (snd (requestSignature env address)) \<Longrightarrow> (\<exists>m. a = SignMessage m) \<or> (\<exists>m. a = SetWalletError m)"
  by (auto simp add: requestSignature_def Let_def signature_failed_def split: sum.splits if_splits)

lemma requestSignature_verified:
  "requestSignature env address = (True, sacts) \<Longrightarrow>
     \<exists>signature recovered.
        signMessage env (challenge address (now env)) = Inr signature
      \<and> verifyMessage env (challenge address (now env)) signature = Inr recovered
      \<and> toLowerCase recovered = toLowerCase address"
  by (auto simp add: requestSignature_def Let_def split: sum.splits if_splits)

lemma requestSignature_unverified:
  "requestSignature env address = (False, sacts) \<Longrightarrow>
     \<not> (\<exists>signature recovered.
        signMessage env (challenge address (now env)) = Inr signature
      \<and> verifyMessage env (challenge address (now env)) signature = Inr recovered
      \<and> toLowerCase recovered = toLowerCase address)"
  by (auto simp add: requestSignature_def Let_def split: sum.splits if_splits)

lemma switch_actions:
  "a \<in> set (snd (switchToFluentNetwork env)) \<Longrightarrow> a = SwitchChain \<or> a = AddChain \<or> (\<exists>m. a = SetWalletError m)"
  by (auto simp add: switchToFluentNetwork_def split: sum.splits if_splits)


lemma requestSignature_False:
  assumes "\<not> (\<exists>signature recovered.
        signMessage env (challenge address (now env)) = Inr signature
      \<and> verifyMessage env (challenge address (now env)) signature = Inr recovered
      \<and> toLowerCase recovered = toLowerCase address)"
  shows "\<exists>sacts. requestSignature env address = (False, sacts)"
proof (cases "requestSignature env address")
  case (Pair ok sacts)
  with assms requestSignature_verified [of env address sacts] show ?thesis by (cases ok) auto
qed

lemma requestSignature_silent:
  "OnConnected a p \<notin> set (snd (requestSignature env address))"
  "SetAccount a \<notin> set (snd (requestSignature env address))"
  "SetManuallyDisconnected b \<notin> set (snd (requestSignature env address))"
  using requestSignature_actions by blast+

lemma switch_silent:
  "OnConnected a p \<notin> set (snd (switchToFluentNetwork env))"
  "SetAccount a \<notin> set (snd (switchToFluentNetwork env))"
  "SetManuallyDisconnected b \<notin> set (snd (switchToFluentNetwork env))"
  using switch_actions by blast+

lemma connectWallet_cases:
  "connectWallet cb env =
     (if \<not> has_ethereum env
      then [SetWalletError ''No Ethereum wallet detected. Please install MetaMask.'']
      else [SetIsConnecting True, SetWalletError []] @ snd (switchToFluentNetwork env) @
        (if \<not> fst (switchToFluentNetwork env) then [SetIsConnecting False, SetIsConnecting False]
         else RequestAccounts #
           (case requestAccounts env of
              Inl err \<Rightarrow> [SetWalletError (''Failed to connect wallet. '' @ or_empty (message err))]
            | Inr [] \<Rightarrow> []
            | Inr (address # others) \<Rightarrow>
                snd (requestSignature env address) @
                (if fst (requestSignature env address)
                 then SetAccount address # notify_connected cb address (Some Web3Provider)
                 else [SetAccount []]))
           @ [SetIsConnecting False]))"
  by (auto simp add: connectWallet_def split: prod.splits sum.splits list.splits bool.splits)

lemma connectWallet_install:
  assumes "OnConnected addr p \<in> set (connectWallet cb env)
           \<or> (addr \<noteq> [] \<and> SetAccount addr \<in> set (connectWallet cb env))"
  shows "\<exists>others. requestAccounts env = Inr (addr # others) \<and> fst (requestSignature env addr)"
  using assms
  by (auto simp add: connectWallet_cases notify_connected_def requestSignature_silent
        switch_silent split: if_splits sum.splits list.splits)


lemma wallet_run_append: "wallet_run s (xs @ ys) = wallet_run (wallet_run s xs) ys"
  by (simp add: wallet_run_def)

lemma app_wallet_run:
  "\<forall>a p. OnConnected a p \<notin> set acts \<Longrightarrow> app (wallet_run s acts) = app s"
proof (induction acts arbitrary: s)
  case Nil
  then show ?case by (simp add: wallet_run_def)
next
  case (Cons x acts)
  then have "app (wallet_apply s x) = app s" by (cases x) auto
  with Cons show ?case by (simp add: wallet_run_def)
qed

lemma flag_wallet_run:
  "\<forall>b. SetManuallyDisconnected b \<notin> set acts
   \<Longrightarrow> manuallyDisconnected (wallet (wallet_run s acts)) = manuallyDisconnected (wallet s)"
proof (induction acts arbitrary: s)
  case Nil
  then show ?case by (simp add: wallet_run_def)
next
  case (Cons x acts)
  then have "manuallyDisconnected (wallet (wallet_apply s x)) = manuallyDisconnected (wallet s)"
    by (cases x) auto
  with Cons show ?case by (simp add: wallet_run_def)
qed

lemma connectWallet_keeps_flag: "SetManuallyDisconnected b \<notin> set (connectWallet cb env)"
  by (auto simp add: connectWallet_cases notify_connected_def requestSignature_silent
        switch_silent split: if_splits sum.splits list.splits)

lemma connectWallet_unverified:
  assumes "has_ethereum env" "fst (switchToFluentNetwork env)"
    "requestAccounts env = Inr (candidate # others)" "\<not> fst (requestSignature env candidate)"
  shows "connectWallet cb env =
           ([SetIsConnecting True, SetWalletError []] @ snd (switchToFluentNetwork env)
            @ [RequestAccounts] @ snd (requestSignature env candidate))
           @ [SetAccount [], SetIsConnecting False]"
  using assms by (simp add: connectWallet_cases)

text \<open>
  C1. A run of \<open>connectWallet\<close> sets a non-empty account or calls \<open>onConnected\<close> for an
  address only if that address is the first account the wallet returned and the
  address recovered from the signature over its challenge equals it up to letter
  case. If signing fails, recovery fails or the recovered address differs, the run
  calls \<open>onConnected\<close> for no address, leaves the account empty and leaves the App as
  it was.
\<close>

theorem connect_installs_only_verified_signer:
  "(OnConnected addr p \<in> set (connectWallet cb env)
      \<or> (addr \<noteq> [] \<and> SetAccount addr \<in> set (connectWallet cb env))
    \<longrightarrow> (\<exists>others signature recovered.
           requestAccounts env = Inr (addr # others)
         \<and> signMessage env (challenge addr (now env)) = Inr signature
         \<and> verifyMessage env (challenge addr (now env)) signature = Inr recovered
         \<and> toLowerCase recovered = toLowerCase addr))
   \<and> (has_ethereum env \<and> fst (switchToFluentNetwork env)
        \<and> requestAccounts env = Inr (candidate # rest)
        \<and> \<not> (\<exists>signature recovered.
                signMessage env (challenge candidate (now env)) = Inr signature
              \<and> verifyMessage env (challenge candidate (now env)) signature = Inr recovered
              \<and> toLowerCase recovered = toLowerCase candidate)
      \<longrightarrow> (\<forall>a q. OnConnected a q \<notin> set (connectWallet cb env))
          \<and> wallet_account (wallet (wallet_run s (connectWallet cb env))) = []
          \<and> app (wallet_run s (connectWallet cb env)) = app s)"
proof (rule conjI; rule impI)
  assume "OnConnected addr p \<in> set (connectWallet cb env)
      \<or> (addr \<noteq> [] \<and> SetAccount addr \<in> set (connectWallet cb env))"
  then obtain others where acc: "requestAccounts env = Inr (addr # others)"
    and ok: "fst (requestSignature env addr)"
    using connectWallet_install by blast
  obtain sacts where "requestSignature env addr = (True, sacts)"
    using ok by (cases "requestSignature env addr") auto
  then obtain signature recovered where
    "signMessage env (challenge addr (now env)) = Inr signature"
    "verifyMessage env (challenge addr (now env)) signature = Inr recovered"
    "toLowerCase recovered = toLowerCase addr"
    using requestSignature_verified by blast
  with acc show "\<exists>others signature recovered.
           requestAccounts env = Inr (addr # others)
         \<and> signMessage env (challenge addr (now env)) = Inr signature
         \<and> verifyMessage env (challenge addr (now env)) signature = Inr recovered
         \<and> toLowerCase recovered = toLowerCase addr" by blast
next
  assume a: "has_ethereum env \<and> fst (switchToFluentNetwork env)
        \<and> requestAccounts env = Inr (candidate # rest)
        \<and> \<not> (\<exists>signature recovered.
                signMessage env (challenge candidate (now env)) = Inr signature
              \<and> verifyMessage env (challenge candidate (now env)) signature = Inr recovered
              \<and> toLowerCase recovered = toLowerCase candidate)"
  then have nok: "\<not> fst (requestSignature env candidate)"
    using requestSignature_False [of env candidate] by auto
  have silent: "\<forall>a q. OnConnected a q \<notin> set (connectWallet cb env)"
  proof (intro allI notI)
    fix a q assume "OnConnected a q \<in> set (connectWallet cb env)"
    then obtain others where "requestAccounts env = Inr (a # others)"
      "fst (requestSignature env a)"
      using connectWallet_install by blast
    with a nok show False by simp
  qed
  from a nok have cw: "connectWallet cb env =
           ([SetIsConnecting True, SetWalletError []] @ snd (switchToFluentNetwork env)
            @ [RequestAccounts] @ snd (requestSignature env candidate))
           @ [SetAccount [], SetIsConnecting False]"
    using connectWallet_unverified by blast
  have "wallet_account (wallet (wallet_run s (connectWallet cb env))) = []"
    unfolding cw wallet_run_append by (simp add: wallet_run_def)
  with silent show "(\<forall>a q. OnConnected a q \<notin> set (connectWallet cb env))
          \<and> wallet_account (wallet (wallet_run s (connectWallet cb env))) = []
          \<and> app (wallet_run s (connectWallet cb env)) = app s"
    using app_wallet_run by blast
qed


lemma lower_0xAB: "toLowerCase ''0xAB'' = toLowerCase ''0xab''"
  by code_simp

lemma signing_env_connect:
  "connectWallet True signing_env =
     [SetIsConnecting True, SetWalletError [], SwitchChain, RequestAccounts,
      SignMessage (challenge ''0xab'' 17), SetAccount ''0xab'',
      OnConnected ''0xab'' (Some Web3Provider), SetIsConnecting False]"
  by (simp add: connectWallet_def signing_env_def switchToFluentNetwork_def requestSignature_def
        sign_ok_def recover_AB_def lower_0xAB notify_connected_def Let_def)

lemma refusing_env_unverified:
  "has_ethereum refusing_env \<and> fst (switchToFluentNetwork refusing_env)
   \<and> requestAccounts refusing_env = Inr [''0xcd'']
   \<and> \<not> (\<exists>signature recovered.
           signMessage refusing_env (challenge ''0xcd'' (now refusing_env)) = Inr signature
         \<and> verifyMessage refusing_env (challenge ''0xcd'' (now refusing_env)) signature
             = Inr recovered
         \<and> toLowerCase recovered = toLowerCase ''0xcd'')"
  by (simp add: refusing_env_def switchToFluentNetwork_def sign_rejected_def)

theorem connect_installs_only_verified_signer_witness:
  "OnConnected ''0xab'' (Some Web3Provider) \<in> set (connectWallet True signing_env)
   \<and> (\<exists>others signature recovered.
           requestAccounts signing_env = Inr (''0xab'' # others)
         \<and> signMessage signing_env (challenge ''0xab'' (now signing_env)) = Inr signature
         \<and> verifyMessage signing_env (challenge ''0xab'' (now signing_env)) signature
             = Inr recovered
         \<and> toLowerCase recovered = toLowerCase ''0xab'')
   \<and> requestAccounts refusing_env = Inr [''0xcd'']
   \<and> wallet_account (wallet (wallet_run connected_system (connectWallet True refusing_env))) = []
   \<and> app (wallet_run connected_system (connectWallet True refusing_env)) = app connected_system"
proof -
  have m: "OnConnected ''0xab'' (Some Web3Provider) \<in> set (connectWallet True signing_env)"
    by (simp add: signing_env_connect)
  note r = connect_installs_only_verified_signer [of "''0xab''" "Some Web3Provider" True signing_env]
  note u = connect_installs_only_verified_signer [of _ _ True refusing_env "''0xcd''" "[]" connected_system]
  from m r have "\<exists>others signature recovered.
           requestAccounts signing_env = Inr (''0xab'' # others)
         \<and> signMessage signing_env (challenge ''0xab'' (now signing_env)) = Inr signature
         \<and> verifyMessage signing_env (challenge ''0xab'' (now signing_env)) signature
             = Inr recovered
         \<and> toLowerCase recovered = toLowerCase ''0xab''"
    by blast
  moreover from u refusing_env_unverified
  have "wallet_account (wallet (wallet_run connected_system (connectWallet True refusing_env))) = []
   \<and> app (wallet_run connected_system (connectWallet True refusing_env)) = app connected_system"
    by blast
  ultimately show ?thesis using m refusing_env_unverified by blast
qed

lemma connected_system_eq:
  "connected_system =
     \<lparr>wallet = \<lparr>wallet_account = ''0xab'', isConnecting = False, wallet_error = [],
                 manuallyDisconnected = False\<rparr>,
      app = \<lparr>app_account = ''0xab'', app_provider = Some Web3Provider,
              noteState = \<lparr>selectedNoteId = None, isEditing = False\<rparr>\<rparr>\<rparr>"
  by (simp add: connected_system_def wallet_step_def wallet_run_def signing_env_connect
        initial_system_def handleConnect_def)

lemma refused_account_change:
  "event_actions True (wallet connected_system) (AccountsChanged refusing_env [''0xcd'']) =
     [SetAccount [], SetIsConnecting True, SetWalletError [],
      SignMessage (challenge ''0xcd'' 18),
      SetWalletError ''You must sign the message to authenticate with the app.'',
      SetIsConnecting False]"
  by (simp add: connected_system_eq accountsChanged_def handleAccountsChanged_def
        refusing_env_def requestSignature_def sign_rejected_def signature_failed_def Let_def)

text \<open>
  C2, at a refused signature. The wallet component is connected as \<open>0xab\<close> and the
  wallet reports the account \<open>0xcd\<close>, whose signature request the user refuses. The
  handler empties the component's own account before it asks for the signature, but
  it never calls \<open>onConnected('', null)\<close> (as \<open>disconnectWallet\<close> does): the App's
  account and provider, which the list and the editor use, still name \<open>0xab\<close> while
  the signature is requested and after it is refused. (The handler does clear its own
  account first and does install the new address only after verification:
  \<open>accountsChanged_clears_first\<close>, \<open>accountsChanged_installs_only_verified\<close>.)
\<close>

theorem account_change_keeps_app_session:
  "wallet_account (wallet connected_system) = ''0xab''
   \<and> app_account (app connected_system) = ''0xab''
   \<and> event_actions True (wallet connected_system) (AccountsChanged refusing_env [''0xcd'']) =
       [SetAccount [], SetIsConnecting True, SetWalletError [],
        SignMessage (challenge ''0xcd'' 18),
        SetWalletError ''You must sign the message to authenticate with the app.'',
        SetIsConnecting False]
   \<and> app_account (app (wallet_run connected_system
         [SetAccount [], SetIsConnecting True, SetWalletError []])) = ''0xab''
   \<and> wallet_account (wallet (wallet_step True connected_system
         (AccountsChanged refusing_env [''0xcd'']))) = []
   \<and> app_account (app (wallet_step True connected_system
         (AccountsChanged refusing_env [''0xcd'']))) = ''0xab''
   \<and> app_provider (app (wallet_step True connected_system
         (AccountsChanged refusing_env [''0xcd'']))) = Some Web3Provider"
  unfolding wallet_step_def refused_account_change
  by (simp add: connected_system_eq wallet_run_def)

lemma handleAccountsChanged_cases:
  "handleAccountsChanged cb captured env accounts =
     SetAccount [] #
     (case accounts of
        [] \<Rightarrow> []
      | address # others \<Rightarrow>
          if captured then []
          else [SetIsConnecting True, SetWalletError []] @ snd (requestSignature env address)
               @ (if fst (requestSignature env address)
                  then SetAccount address # notify_connected cb address (Some Web3Provider)
                  else [])
               @ [SetIsConnecting False])"
  by (auto simp add: handleAccountsChanged_def split: prod.splits list.splits bool.splits)

lemma accountsChanged_clears_first:
  assumes "accountsChanged cb w env accounts \<noteq> []"
  shows "\<exists>rest. accountsChanged cb w env accounts = SetAccount [] # rest"
  using assms by (auto simp add: accountsChanged_def handleAccountsChanged_cases split: if_splits)

lemma accountsChanged_installs_only_verified:
  assumes "OnConnected addr p \<in> set (accountsChanged cb w env accounts)
           \<or> (addr \<noteq> [] \<and> SetAccount addr \<in> set (accountsChanged cb w env accounts))"
  shows "\<exists>others signature recovered.
           accounts = addr # others
         \<and> signMessage env (challenge addr (now env)) = Inr signature
         \<and> verifyMessage env (challenge addr (now env)) signature = Inr recovered
         \<and> toLowerCase recovered = toLowerCase addr"
proof -
  from assms have "\<exists>others. accounts = addr # others \<and> fst (requestSignature env addr)"
    by (auto simp add: accountsChanged_def handleAccountsChanged_cases notify_connected_def
          requestSignature_silent split: if_splits list.splits)
  then obtain others where acc: "accounts = addr # others"
    and ok: "fst (requestSignature env addr)" by blast
  obtain sacts where "requestSignature env addr = (True, sacts)"
    using ok by (cases "requestSignature env addr") auto
  with acc show ?thesis using requestSignature_verified by blast
qed

lemma accountsChanged_unverified_keeps_app:
  assumes "\<not> fst (requestSignature env (hd accounts))"
  shows "app (wallet_run s (accountsChanged cb w env accounts)) = app s"
proof -
  have "\<forall>a p. OnConnected a p \<notin> set (accountsChanged cb w env accounts)"
    using assms
    by (auto simp add: accountsChanged_def handleAccountsChanged_cases requestSignature_silent
          split: list.splits)
  then show ?thesis by (rule app_wallet_run)
qed


lemma accountsChanged_suppressed:
  "manuallyDisconnected w \<Longrightarrow> accountsChanged cb w env accounts = []"
  by (simp add: accountsChanged_def)

lemma wallet_step_keeps_flag:
  assumes "manuallyDisconnected (wallet s)"
  shows "manuallyDisconnected (wallet (wallet_step cb s ev))"
proof (cases ev)
  case (Connect env)
  have "\<forall>b. SetManuallyDisconnected b \<notin> set (connectWallet cb env)"
    by (simp add: connectWallet_keeps_flag)
  then have "manuallyDisconnected (wallet (wallet_run s (connectWallet cb env)))
             = manuallyDisconnected (wallet s)"
    by (rule flag_wallet_run)
  with assms Connect show ?thesis by (simp add: wallet_step_def)
next
  case Disconnect
  then show ?thesis
    by (simp add: wallet_step_def disconnectWallet_def notify_connected_def wallet_run_def)
next
  case (AccountsChanged env accounts)
  with assms show ?thesis
    by (simp add: wallet_step_def accountsChanged_suppressed wallet_run_def)
qed

lemma wallet_steps_keep_flag:
  "manuallyDisconnected (wallet s) \<Longrightarrow> manuallyDisconnected (wallet (wallet_steps cb s evs))"
proof (induction evs arbitrary: s)
  case Nil
  then show ?case by (simp add: wallet_steps_def)
next
  case (Cons ev evs)
  from Cons.prems have "manuallyDisconnected (wallet (wallet_step cb s ev))"
    by (rule wallet_step_keeps_flag)
  then have "manuallyDisconnected (wallet (wallet_steps cb (wallet_step cb s ev) evs))"
    by (rule Cons.IH)
  then show ?case by (simp add: wallet_steps_def)
qed

lemma disconnect_sets_flag: "manuallyDisconnected (wallet (wallet_step cb s Disconnect))"
  by (simp add: wallet_step_def disconnectWallet_def notify_connected_def wallet_run_def)

text \<open>
  What \<open>disconnectWallet\<close> leaves behind: the account is empty, the App's account and
  provider are cleared, the flag is set, and no later event clears the flag, so
  every later account-change notification finds no listener.
\<close>

lemma disconnect_flag_never_cleared:
  "wallet_account (wallet (wallet_step cb s Disconnect)) = []
   \<and> app_account (app (wallet_step True s Disconnect)) = []
   \<and> app_provider (app (wallet_step True s Disconnect)) = None
   \<and> manuallyDisconnected (wallet (wallet_steps cb (wallet_step cb s Disconnect) evs))
   \<and> event_actions cb (wallet (wallet_steps cb (wallet_step cb s Disconnect) evs))
        (AccountsChanged env accounts) = []
   \<and> wallet_step cb (wallet_steps cb (wallet_step cb s Disconnect) evs)
        (AccountsChanged env accounts)
       = wallet_steps cb (wallet_step cb s Disconnect) evs"
proof -
  let ?s = "wallet_steps cb (wallet_step cb s Disconnect) evs"
  have flag: "manuallyDisconnected (wallet ?s)"
    using disconnect_sets_flag wallet_steps_keep_flag by blast
  then have quiet: "event_actions cb (wallet ?s) (AccountsChanged env accounts) = []"
    by (simp add: accountsChanged_suppressed)
  then have same: "wallet_step cb ?s (AccountsChanged env accounts) = ?s"
    by (simp add: wallet_step_def wallet_run_def)
  have "wallet_account (wallet (wallet_step cb s Disconnect)) = []"
    by (simp add: wallet_step_def disconnectWallet_def notify_connected_def wallet_run_def)
  moreover have "app_account (app (wallet_step True s Disconnect)) = []
                 \<and> app_provider (app (wallet_step True s Disconnect)) = None"
    by (simp add: wallet_step_def disconnectWallet_def notify_connected_def wallet_run_def
          handleConnect_def)
  ultimately show ?thesis using flag quiet same by blast
qed

lemma reconnected_system_eq:
  "reconnected_system =
     \<lparr>wallet = \<lparr>wallet_account = ''0xab'', isConnecting = False, wallet_error = [],
                 manuallyDisconnected = True\<rparr>,
      app = \<lparr>app_account = ''0xab'', app_provider = Some Web3Provider,
              noteState = \<lparr>selectedNoteId = None, isEditing = False\<rparr>\<rparr>\<rparr>"
  by (simp add: reconnected_system_def wallet_steps_def wallet_step_def wallet_run_def
        signing_env_connect disconnectWallet_def notify_connected_def initial_system_def
        handleConnect_def)

text \<open>
  C3, after a reconnect. The user connects as \<open>0xab\<close>, disconnects and connects again
  as \<open>0xab\<close>; then the wallet reports the account \<open>0xcd\<close>. \<open>connectWallet\<close> has not
  reset the flag that \<open>disconnectWallet\<close> set, so no listener is registered: the
  notification requests no signature and clears nothing, and the component and the
  App stay on \<open>0xab\<close>. Before the disconnect the same notification is handled
  (\<open>refused_account_change\<close>).
\<close>

theorem reconnect_ignores_account_change:
  "wallet_account (wallet reconnected_system) = ''0xab''
   \<and> app_account (app reconnected_system) = ''0xab''
   \<and> manuallyDisconnected (wallet reconnected_system)
   \<and> event_actions True (wallet reconnected_system) (AccountsChanged refusing_env [''0xcd''])
       = []
   \<and> wallet_account (wallet (wallet_step True reconnected_system
         (AccountsChanged refusing_env [''0xcd'']))) = ''0xab''
   \<and> app_account (app (wallet_step True reconnected_system
         (AccountsChanged refusing_env [''0xcd'']))) = ''0xab''"
  by (simp add: reconnected_system_eq wallet_step_def wallet_run_def accountsChanged_def)

end
